theory Spec2Isabelle
  imports Complex_Main
begin

section \<open>Python values: exceptions, attributes, names\<close>

text \<open>
  An exception is its class name and its message. A call either returns a value
  (\<open>Inr\<close>) or raises (\<open>Inl\<close>).
\<close>

datatype error = Error (error_class: string) (error_message: string)

text \<open>
  An attribute of an object is either not there (\<open>hasattr\<close> is false, reading it raises
  AttributeError) or holds a value; Python's \<open>None\<close> is the \<open>None\<close> of an option
  inside \<open>Present\<close>.
\<close>

datatype 'v attr = Absent | Present 'v

definition hasattr :: "'v attr \<Rightarrow> bool" where
  "hasattr a = (case a of Absent \<Rightarrow> False | Present _ \<Rightarrow> True)"

definition getattr :: "string \<Rightarrow> 'v attr \<Rightarrow> error + 'v" where
  "getattr name a =
     (case a of
        Absent \<Rightarrow> Inl (Error ''AttributeError'' (''Tacotron2 object has no attribute '' @ name))
      | Present v \<Rightarrow> Inr v)"

text \<open>
  Reading a variable: the name is looked up in the scope (the local variables bound so
  far); a name bound nowhere raises NameError.
\<close>

definition name_lookup :: "(string \<times> 'v) list \<Rightarrow> string \<Rightarrow> error + 'v" where
  "name_lookup scope x =
     (case map_of scope x of
        Some v \<Rightarrow> Inr v
      | None \<Rightarrow> Inl (Error ''NameError'' (''name '' @ x @ '' is not defined'')))"

section \<open>Tensors\<close>

text \<open>
  A tensor of rank n is a rectangular nested list of depth n over the element type
  \<open>'a\<close> (the floats of the source; only their \<open>+\<close> and \<open>0\<close> are used). The
  functions are defined on every nested list; a dimension of size 0 is the empty list.
\<close>

type_synonym 'a tensor2 = "'a list list"
type_synonym 'a tensor3 = "'a list list list"

fun mapE :: "('x \<Rightarrow> error + 'y) \<Rightarrow> 'x list \<Rightarrow> error + 'y list" where
  "mapE f [] = Inr []"
| "mapE f (x # xs) =
     (case f x of
        Inl e \<Rightarrow> Inl e
      | Inr y \<Rightarrow> (case mapE f xs of Inl e \<Rightarrow> Inl e | Inr ys \<Rightarrow> Inr (y # ys)))"

fun zipE :: "error \<Rightarrow> ('x \<Rightarrow> 'y \<Rightarrow> error + 'z) \<Rightarrow> 'x list \<Rightarrow> 'y list \<Rightarrow> error + 'z list" where
  "zipE err f [] [] = Inr []"
| "zipE err f (x # xs) (y # ys) =
     (case f x y of
        Inl e \<Rightarrow> Inl e
      | Inr z \<Rightarrow> (case zipE err f xs ys of Inl e \<Rightarrow> Inl e | Inr zs \<Rightarrow> Inr (z # zs)))"
| "zipE err f _ _ = Inl err"

definition size0 :: "'x list \<Rightarrow> nat" where
  "size0 xs = length xs"

definition size1 :: "'x list list \<Rightarrow> nat" where
  "size1 xs = (case xs of [] \<Rightarrow> 0 | x # _ \<Rightarrow> length x)"

text \<open>\<open>x.transpose(1, 2)\<close> on a rank-3 tensor: every batch item is transposed.\<close>

definition transpose12 :: "'a tensor3 \<Rightarrow> 'a tensor3" where
  "transpose12 x = map transpose x"

text \<open>\<open>torch.flip(x, dims=(1,))\<close>: every batch item is reversed along its first axis;
  \<open>None\<close> is not a tensor.\<close>

definition flip1 :: "'a tensor3 option \<Rightarrow> error + 'a tensor3" where
  "flip1 x =
     (case x of
        None \<Rightarrow> Inl (Error ''TypeError'' ''flip(): argument input must be Tensor, not NoneType'')
      | Some t \<Rightarrow> Inr (map rev t))"

text \<open>\<open>x.unsqueeze_(1)\<close> on a rank-2 tensor.\<close>

definition unsqueeze1 :: "'a tensor2 \<Rightarrow> 'a tensor3" where
  "unsqueeze1 x = map (\<lambda>v. [v]) x"

text \<open>
  \<open>x.expand(b, t, -1)\<close> on a rank-3 tensor: a dimension keeps its size or, when its
  size is 1, is repeated; anything else raises.
\<close>

definition expand_error :: error where
  "expand_error = Error ''RuntimeError'' ''The expanded size of the tensor must match the existing size''"

definition expand_dim :: "'x list \<Rightarrow> nat \<Rightarrow> error + 'x list" where
  "expand_dim xs n =
     (if length xs = n then Inr xs
      else if length xs = 1 then Inr (replicate n (hd xs))
      else Inl expand_error)"

definition expand :: "'a tensor3 \<Rightarrow> nat \<Rightarrow> nat \<Rightarrow> error + 'a tensor3" where
  "expand x b t =
     (case expand_dim x b of
        Inl e \<Rightarrow> Inl e
      | Inr rows \<Rightarrow> mapE (\<lambda>r. expand_dim r t) rows)"

text \<open>\<open>torch.cat([x, y], dim=-1)\<close> on rank-3 tensors: the first two sizes must agree.\<close>

definition cat_error :: error where
  "cat_error = Error ''RuntimeError'' ''Sizes of tensors must match except in dimension 2''"

definition cat_last :: "'a tensor3 \<Rightarrow> 'a tensor3 \<Rightarrow> error + 'a tensor3" where
  "cat_last x y = zipE cat_error (zipE cat_error (\<lambda>u v. Inr (u @ v))) x y"

text \<open>
  \<open>x + y\<close> on tensors of equal rank, with broadcasting: at every level the sizes agree
  or one of them is 1.
\<close>

definition add_error :: error where
  "add_error = Error ''RuntimeError'' ''The size of tensor a must match the size of tensor b''"

definition bcast :: "('x \<Rightarrow> 'y \<Rightarrow> error + 'z) \<Rightarrow> 'x list \<Rightarrow> 'y list \<Rightarrow> error + 'z list" where
  "bcast f xs ys =
     (if length xs = length ys then zipE add_error f xs ys
      else if length xs = 1 then mapE (\<lambda>y. f (hd xs) y) ys
      else if length ys = 1 then mapE (\<lambda>x. f x (hd ys)) xs
      else Inl add_error)"

definition tensor_add :: "('a::plus) tensor3 \<Rightarrow> 'a tensor3 \<Rightarrow> error + 'a tensor3" where
  "tensor_add x y = bcast (bcast (bcast (\<lambda>u v. Inr (u + v)))) x y"

section \<open>torch.nn.Embedding\<close>

record 'a embedding_layer =
  weight :: "'a list list"
  padding_idx :: "nat option"

text \<open>A table of the given shape whose entry (i, j) is the sample \<open>draw i j\<close>.\<close>

definition table :: "(nat \<Rightarrow> nat \<Rightarrow> 'a) \<Rightarrow> nat \<Rightarrow> nat \<Rightarrow> 'a list list" where
  "table draw rows cols = map (\<lambda>i. map (draw i) [0..<cols]) [0..<rows]"

text \<open>
  \<open>nn.Embedding(num, dim, padding_idx)\<close>: the weights are drawn (\<open>draw\<close> is the sample
  of the default initialisation), then the padding row is filled with zeros. A padding
  index outside the table and a negative size raise.
\<close>

definition Embedding :: "(nat \<Rightarrow> nat \<Rightarrow> 'a::zero) \<Rightarrow> int \<Rightarrow> int \<Rightarrow> nat option \<Rightarrow> error + 'a embedding_layer" where
  "Embedding draw num embedding_dim pad =
     (if (case pad of None \<Rightarrow> False | Some p \<Rightarrow> \<not> int p < num)
      then Inl (Error ''AssertionError'' ''Padding_idx must be within num_embeddings'')
      else if num < 0 \<or> embedding_dim < 0
      then Inl (Error ''RuntimeError'' ''Trying to create tensor with negative dimension'')
      else
        let w = table draw (nat num) (nat embedding_dim) in
        Inr \<lparr>weight = (case pad of None \<Rightarrow> w | Some p \<Rightarrow> w[p := replicate (nat embedding_dim) 0]),
             padding_idx = pad\<rparr>)"

text \<open>
  \<open>weight.data.uniform_(a, b)\<close> and \<open>weight.data.normal_(m, s)\<close>: every entry of the
  weight is overwritten in place by a fresh sample (\<open>draw i j\<close> for entry (i, j)).
\<close>

definition fill_weight :: "(nat \<Rightarrow> nat \<Rightarrow> 'a) \<Rightarrow> 'a embedding_layer \<Rightarrow> 'a embedding_layer" where
  "fill_weight draw e =
     e\<lparr>weight := map (\<lambda>i. map (draw i) [0..<length (weight e ! i)]) [0..<length (weight e)]\<rparr>"

text \<open>\<open>nn.Embedding.from_pretrained(torch.FloatTensor(ws))\<close>; a ragged list is no tensor.\<close>

definition from_pretrained :: "'a list list \<Rightarrow> error + 'a embedding_layer" where
  "from_pretrained ws =
     (if list_all (\<lambda>r. length r = size1 ws) ws
      then Inr \<lparr>weight = ws, padding_idx = None\<rparr>
      else Inl (Error ''ValueError'' ''expected sequence of equal length''))"

text \<open>Looking one id up: the row of the weight, or IndexError outside the table.\<close>

definition embedding_row :: "'a embedding_layer \<Rightarrow> int \<Rightarrow> error + 'a list" where
  "embedding_row e i =
     (if 0 \<le> i \<and> i < int (length (weight e)) then Inr (weight e ! nat i)
      else Inl (Error ''IndexError'' ''index out of range in self''))"

text \<open>Calling the layer on a matrix of ids (batch, time) or on a vector of ids (batch).\<close>

definition embedding_call :: "'a embedding_layer \<Rightarrow> int list list \<Rightarrow> error + 'a tensor3" where
  "embedding_call e ids = mapE (mapE (embedding_row e)) ids"

definition embedding_call1 :: "'a embedding_layer \<Rightarrow> int list \<Rightarrow> error + 'a tensor2" where
  "embedding_call1 e ids = mapE (embedding_row e) ids"

text \<open>The bounds of the uniform initialisation of the token embedding (lines 42-43).\<close>

definition std :: "int \<Rightarrow> real" where
  "std num_chars = sqrt (2 / (real_of_int num_chars + 512))"

definition val :: "int \<Rightarrow> real" where
  "val num_chars = sqrt 3 * std num_chars"

text \<open>A sample of \<open>uniform_(-val, val)\<close> lies in the half-open interval.\<close>

definition uniform_sample :: "int \<Rightarrow> (nat \<Rightarrow> nat \<Rightarrow> real) \<Rightarrow> bool" where
  "uniform_sample num_chars draw = (\<forall>i j. - val num_chars \<le> draw i j \<and> draw i j < val num_chars)"


section \<open>The collaborators\<close>

text \<open>
  \<open>Encoder\<close>, \<open>Decoder\<close>, \<open>Postnet\<close> (TTS.layers.tacotron2) and \<open>sequence_mask\<close>
  (TTS.utils.generic_utils) are imported by the module and are parameters here. A module
  object has a state of type \<open>'w\<close> (its weights and buffers); constructing one may
  raise, and calling one may raise and may change its state.
\<close>

type_synonym 'a decoder_result = "'a tensor3 \<times> 'a tensor3 \<times> 'a tensor2"

text \<open>The options handed on to the decoder, in the order of the call: attn_type, attn_win,
  attn_norm, prenet_type, prenet_dropout, forward_attn, trans_agent, forward_attn_mask,
  location_attn, attn_K, separate_stopnet.\<close>

type_synonym decoder_options =
  "string \<times> bool \<times> string \<times> string \<times> bool \<times> bool \<times> bool \<times> bool \<times> bool \<times> int \<times> bool"

record ('a, 'w) env =
  sequence_mask :: "int list \<Rightarrow> error + bool list list"
  Encoder_init :: "int \<Rightarrow> error + 'w"
  Encoder_forward :: "'a tensor3 \<Rightarrow> int list \<Rightarrow> 'w \<Rightarrow> (error + 'a tensor3) \<times> 'w"
  Encoder_inference :: "'a tensor3 \<Rightarrow> 'w \<Rightarrow> (error + 'a tensor3) \<times> 'w"
  Encoder_inference_truncated :: "'a tensor3 \<Rightarrow> 'w \<Rightarrow> (error + 'a tensor3) \<times> 'w"
  Decoder_init :: "int \<Rightarrow> int \<Rightarrow> int \<Rightarrow> decoder_options \<Rightarrow> error + 'w"
  Decoder_forward ::
    "'a tensor3 \<Rightarrow> 'a tensor3 option \<Rightarrow> bool list list \<Rightarrow> 'w \<Rightarrow> (error + 'a decoder_result) \<times> 'w"
  Decoder_inference :: "'a tensor3 \<Rightarrow> 'w \<Rightarrow> (error + 'a decoder_result) \<times> 'w"
  Decoder_inference_truncated :: "'a tensor3 \<Rightarrow> 'w \<Rightarrow> (error + 'a decoder_result) \<times> 'w"
  Postnet_init :: "int \<Rightarrow> error + 'w"
  Postnet_forward :: "'a tensor3 \<Rightarrow> 'w \<Rightarrow> (error + 'a tensor3) \<times> 'w"

section \<open>The model object\<close>

text \<open>
  The attributes of a \<open>Tacotron2\<close> object. The four submodules are objects of their
  own: the attribute holds the address of the object, \<open>objects\<close> holds the objects, and
  the address is the index. \<open>speaker_embedding\<close>, \<open>speaker_embeddings\<close> and
  \<open>decoder_backward\<close> are set on some paths of the constructor only.
\<close>

type_synonym addr = nat

record ('a, 'w) tacotron2 =
  postnet_output_dim :: int
  decoder_output_dim :: int
  num_speakers :: int
  n_frames_per_step :: int
  bidirectional_decoder :: bool
  embedding :: "'a embedding_layer"
  speaker_embedding :: "'a embedding_layer attr"
  speaker_embeddings :: "'a tensor3 option attr"
  encoder :: addr
  decoder :: addr
  decoder_backward :: "addr attr"
  postnet :: addr
  objects :: "'w list"

text \<open>What a call returns: the four-tuple, or the six-tuple of the bidirectional model.\<close>

datatype 'a outputs =
    Outputs4 "'a tensor3" "'a tensor3" "'a tensor3" "'a tensor2"
  | Outputs6 "'a tensor3" "'a tensor3" "'a tensor3" "'a tensor2" "'a tensor3" "'a tensor3"

text \<open>The four components every call returns.\<close>

fun forward_outputs :: "'a outputs \<Rightarrow> 'a tensor3 \<times> 'a tensor3 \<times> 'a tensor3 \<times> 'a tensor2" where
  "forward_outputs (Outputs4 d p a t) = (d, p, a, t)"
| "forward_outputs (Outputs6 d p a t db ab) = (d, p, a, t)"

subsection \<open>Statements in sequence\<close>

text \<open>
  A method takes the object and returns what it returns or raises, with the object as
  it has left it: what was assigned before a raise stays assigned.
\<close>

type_synonym ('r, 'a, 'w) action = "('a, 'w) tacotron2 \<Rightarrow> (error + 'r) \<times> ('a, 'w) tacotron2"

definition return :: "'r \<Rightarrow> ('r, 'a, 'w) action" where
  "return x s = (Inr x, s)"

definition raise :: "error \<Rightarrow> ('r, 'a, 'w) action" where
  "raise e s = (Inl e, s)"

definition liftE :: "error + 'r \<Rightarrow> ('r, 'a, 'w) action" where
  "liftE r s = (r, s)"

definition bind :: "('r, 'a, 'w) action \<Rightarrow> ('r \<Rightarrow> ('q, 'a, 'w) action) \<Rightarrow> ('q, 'a, 'w) action" where
  "bind m f s = (case m s of (Inl e, s') \<Rightarrow> (Inl e, s') | (Inr x, s') \<Rightarrow> f x s')"

definition bindE :: "error + 'x \<Rightarrow> ('x \<Rightarrow> error + 'y) \<Rightarrow> error + 'y" where
  "bindE r f = (case r of Inl e \<Rightarrow> Inl e | Inr x \<Rightarrow> f x)"

text \<open>Calling the module object at address \<open>a\<close>: the call runs on the object's state and
  leaves the new state at the same address.\<close>

definition call_module ::
  "addr \<Rightarrow> ('w \<Rightarrow> (error + 'r) \<times> 'w) \<Rightarrow> ('r, 'a, 'w) action" where
  "call_module a f s =
     (case f (objects s ! a) of (r, w') \<Rightarrow> (r, s\<lparr>objects := (objects s)[a := w']\<rparr>))"

text \<open>\<open>copy.deepcopy(x)\<close> of the object at an address: a new object with the same state.\<close>

definition deepcopy :: "addr \<Rightarrow> 'w list \<Rightarrow> addr \<times> 'w list" where
  "deepcopy a objs = (length objs, objs @ [objs ! a])"

definition new_object :: "'w \<Rightarrow> 'w list \<Rightarrow> addr \<times> 'w list" where
  "new_object w objs = (length objs, objs @ [w])"

section \<open>The class Tacotron2\<close>

text \<open>
  The methods of the class, in the order of the source. A leading underscore of the
  source's name is written \<open>p_\<close>.
\<close>

subsection \<open>The constructor\<close>

record 'a args =
  arg_num_chars :: int
  arg_num_speakers :: int
  arg_r :: int
  arg_speaker_embedding_dim :: int
  arg_speaker_embedding_weights :: "'a list list option"
  arg_postnet_output_dim :: int
  arg_decoder_output_dim :: int
  arg_attn_type :: string
  arg_attn_win :: bool
  arg_attn_norm :: string
  arg_prenet_type :: string
  arg_prenet_dropout :: bool
  arg_forward_attn :: bool
  arg_trans_agent :: bool
  arg_forward_attn_mask :: bool
  arg_location_attn :: bool
  arg_attn_K :: int
  arg_separate_stopnet :: bool
  arg_bidirectional_decoder :: bool

text \<open>The signature's default values.\<close>

definition default_args :: "int \<Rightarrow> int \<Rightarrow> int \<Rightarrow> 'a args" where
  "default_args n_chars n_speakers r =
     \<lparr>arg_num_chars = n_chars, arg_num_speakers = n_speakers, arg_r = r,
      arg_speaker_embedding_dim = 512, arg_speaker_embedding_weights = None,
      arg_postnet_output_dim = 80, arg_decoder_output_dim = 80,
      arg_attn_type = ''original'', arg_attn_win = False, arg_attn_norm = ''softmax'',
      arg_prenet_type = ''original'', arg_prenet_dropout = True, arg_forward_attn = False,
      arg_trans_agent = False, arg_forward_attn_mask = False, arg_location_attn = True,
      arg_attn_K = 5, arg_separate_stopnet = True, arg_bidirectional_decoder = False\<rparr>"

text \<open>
  The random numbers the constructor draws: the default initialisation of the two
  embedding tables, and the samples of \<open>uniform_(-val, val)\<close> (line 44) and of
  \<open>normal_(0, 0.3)\<close> (line 50).
\<close>

record 'a samples =
  embedding_default :: "nat \<Rightarrow> nat \<Rightarrow> 'a"
  embedding_uniform :: "nat \<Rightarrow> nat \<Rightarrow> 'a"
  speaker_default :: "nat \<Rightarrow> nat \<Rightarrow> 'a"
  speaker_normal :: "nat \<Rightarrow> nat \<Rightarrow> 'a"

text \<open>\<open>if speaker_embedding_weights:\<close> holds for a list that is there and not empty.
  The constructor's \<open>proj_speaker_dim\<close> (line 39) is never read and is left out; the
  bounds of line 42-43 are \<open>std\<close> and \<open>val\<close> above, and the sample drawn within them
  is \<open>embedding_uniform\<close>.\<close>

definition truthy :: "'x list option \<Rightarrow> bool" where
  "truthy v = (case v of None \<Rightarrow> False | Some xs \<Rightarrow> xs \<noteq> [])"

definition init :: "('a::zero, 'w) env \<Rightarrow> 'a samples \<Rightarrow> 'a args \<Rightarrow> error + ('a, 'w) tacotron2" where
  "init env smp a =
     (let decoder_dim = (if arg_num_speakers a > 1 then 512 + arg_speaker_embedding_dim a else 512);
          encoder_dim = (if arg_num_speakers a > 1 then 512 else (512::int))
      in
      bindE (Embedding (embedding_default smp) (arg_num_chars a) 512 (Some 0)) (\<lambda>emb0.
      let emb = fill_weight (embedding_uniform smp) emb0 in
      bindE (if arg_num_speakers a > 1
             then (if truthy (arg_speaker_embedding_weights a)
                   then bindE (from_pretrained (the (arg_speaker_embedding_weights a)))
                          (\<lambda>e. Inr (Present e))
                   else bindE (Embedding (speaker_default smp) (arg_num_speakers a)
                                 (arg_speaker_embedding_dim a) None)
                          (\<lambda>e. Inr (Present (fill_weight (speaker_normal smp) e))))
             else Inr Absent) (\<lambda>spk.
      bindE (Encoder_init env encoder_dim) (\<lambda>enc.
      let (encoder_addr, objs) = new_object enc [] in
      bindE (Decoder_init env decoder_dim (arg_decoder_output_dim a) (arg_r a)
               (arg_attn_type a, arg_attn_win a, arg_attn_norm a, arg_prenet_type a,
                arg_prenet_dropout a, arg_forward_attn a, arg_trans_agent a,
                arg_forward_attn_mask a, arg_location_attn a, arg_attn_K a,
                arg_separate_stopnet a)) (\<lambda>dec.
      let (decoder_addr, objs) = new_object dec objs;
          (backward, objs) =
             (if arg_bidirectional_decoder a
              then (case deepcopy decoder_addr objs of (b, objs') \<Rightarrow> (Present b, objs'))
              else (Absent, objs))
      in
      bindE (Postnet_init env (arg_postnet_output_dim a)) (\<lambda>post.
      let (postnet_addr, objs) = new_object post objs in
      Inr \<lparr>postnet_output_dim = arg_postnet_output_dim a,
           decoder_output_dim = arg_decoder_output_dim a,
           num_speakers = arg_num_speakers a,
           n_frames_per_step = arg_r a,
           bidirectional_decoder = arg_bidirectional_decoder a,
           embedding = emb,
           speaker_embedding = spk,
           speaker_embeddings = (if arg_num_speakers a > 1 then Present None else Absent),
           encoder = encoder_addr,
           decoder = decoder_addr,
           decoder_backward = backward,
           postnet = postnet_addr,
           objects = objs\<rparr>))))))"

subsection \<open>The speaker embedding\<close>

definition p_init_states :: "(unit, 'a, 'w) action" where
  "p_init_states s = (Inr (), s\<lparr>speaker_embeddings := Present None\<rparr>)"

definition p_compute_speaker_embedding :: "int list \<Rightarrow> ('a tensor3, 'a, 'w) action" where
  "p_compute_speaker_embedding speaker_ids =
     bind (\<lambda>s. liftE (getattr ''speaker_embedding'' (speaker_embedding s)) s) (\<lambda>layer.
     bind (liftE (embedding_call1 layer speaker_ids)) (\<lambda>speaker_embs.
     return (unsqueeze1 speaker_embs)))"

definition no_speaker_id :: error where
  "no_speaker_id =
     Error ''RuntimeError'' '' [!] Model has speaker embedding layer but speaker_id is not provided''"

definition compute_speaker_embedding :: "int list option \<Rightarrow> (unit, 'a, 'w) action" where
  "compute_speaker_embedding speaker_ids s =
     (if hasattr (speaker_embedding s) \<and> speaker_ids = None
      then raise no_speaker_id s
      else if hasattr (speaker_embedding s) \<and> speaker_ids \<noteq> None
      then bind (p_compute_speaker_embedding (the speaker_ids))
             (\<lambda>v s'. (Inr (), s'\<lparr>speaker_embeddings := Present (Some v)\<rparr>)) s
      else return () s)"

text \<open>The two static fusion methods; \<open>None\<close> has no \<open>expand\<close>.\<close>

definition none_expand :: error where
  "none_expand = Error ''AttributeError'' ''NoneType object has no attribute expand''"

definition p_add_speaker_embedding ::
  "('a::plus) tensor3 \<Rightarrow> 'a tensor3 option \<Rightarrow> error + 'a tensor3" where
  "p_add_speaker_embedding outputs speaker_embs =
     (case speaker_embs of
        None \<Rightarrow> Inl none_expand
      | Some v \<Rightarrow>
          bindE (expand v (size0 outputs) (size1 outputs)) (\<lambda>speaker_embs'.
          tensor_add outputs speaker_embs'))"

definition p_concat_speaker_embedding ::
  "'a tensor3 \<Rightarrow> 'a tensor3 option \<Rightarrow> error + 'a tensor3" where
  "p_concat_speaker_embedding outputs speaker_embs =
     (case speaker_embs of
        None \<Rightarrow> Inl none_expand
      | Some v \<Rightarrow>
          bindE (expand v (size0 outputs) (size1 outputs)) (\<lambda>speaker_embs'.
          cat_last outputs speaker_embs'))"

subsection \<open>Training and inference\<close>

text \<open>
  \<open>.to(characters.device)\<close> (line 77) and \<open>@torch.no_grad()\<close> (line 103) change no
  value and are left out. The default \<open>None\<close> of \<open>mel_specs\<close> and of \<open>speaker_ids\<close>
  is the \<open>None\<close> of the option.
\<close>

definition shape_outputs ::
  "'a tensor3 \<Rightarrow> 'a tensor3 \<Rightarrow> 'b \<Rightarrow> 'a tensor3 \<times> 'a tensor3 \<times> 'b" where
  "shape_outputs mel_outputs mel_outputs_postnet alignments =
     (let mel_outputs = transpose12 mel_outputs;
          mel_outputs_postnet = transpose12 mel_outputs_postnet
      in (mel_outputs, mel_outputs_postnet, alignments))"

definition p_backward_inference ::
  "('a, 'w) env \<Rightarrow> 'a tensor3 option \<Rightarrow> 'a tensor3 \<Rightarrow> bool list list \<Rightarrow>
     ('a tensor3 \<times> 'a tensor3, 'a, 'w) action" where
  "p_backward_inference env mel_specs encoder_outputs msk =
     bind (\<lambda>s. liftE (getattr ''decoder_backward'' (decoder_backward s)) s) (\<lambda>backward.
     bind (liftE (flip1 mel_specs)) (\<lambda>flipped.
     bind (call_module backward (Decoder_forward env encoder_outputs (Some flipped) msk))
       (\<lambda>(decoder_outputs_b, alignments_b, _).
     let decoder_outputs_b = transpose12 decoder_outputs_b in
     return (decoder_outputs_b, alignments_b))))"

text \<open>The fusion step both \<open>forward\<close> and \<open>inference\<close> write out (lines 81-83, 114-116,
  137-139).\<close>

definition fuse_speaker :: "'a tensor3 \<Rightarrow> ('a tensor3, 'a, 'w) action" where
  "fuse_speaker encoder_outputs s =
     (if num_speakers s > 1
      then bind (liftE (getattr ''speaker_embeddings'' (speaker_embeddings s)))
             (\<lambda>cached. liftE (p_concat_speaker_embedding encoder_outputs cached)) s
      else return encoder_outputs s)"

definition forward ::
  "('a::plus, 'w) env \<Rightarrow> int list list \<Rightarrow> int list \<Rightarrow> 'a tensor3 option \<Rightarrow> int list option \<Rightarrow>
     ('a outputs, 'a, 'w) action" where
  "forward env characters text_lengths mel_specs speaker_ids =
     bind p_init_states (\<lambda>_.
     bind (liftE (sequence_mask env text_lengths)) (\<lambda>mask.
     bind (\<lambda>s. liftE (embedding_call (embedding s) characters) s) (\<lambda>embedded.
     let embedded_inputs = transpose12 embedded in
     bind (compute_speaker_embedding speaker_ids) (\<lambda>_.
     bind (\<lambda>s. call_module (encoder s) (Encoder_forward env embedded_inputs text_lengths) s)
       (\<lambda>encoder_outputs.
     bind (fuse_speaker encoder_outputs) (\<lambda>encoder_outputs.
     bind (\<lambda>s. call_module (decoder s) (Decoder_forward env encoder_outputs mel_specs mask) s)
       (\<lambda>(decoder_outputs, alignments, stop_tokens).
     bind (\<lambda>s. call_module (postnet s) (Postnet_forward env decoder_outputs) s)
       (\<lambda>postnet_outputs.
     bind (liftE (tensor_add decoder_outputs postnet_outputs)) (\<lambda>postnet_outputs.
     let (decoder_outputs, postnet_outputs, alignments) =
           shape_outputs decoder_outputs postnet_outputs alignments
     in
     (\<lambda>s. if bidirectional_decoder s
          then bind (p_backward_inference env mel_specs encoder_outputs mask)
                 (\<lambda>(decoder_outputs_backward, alignments_backward).
                    return (Outputs6 decoder_outputs postnet_outputs alignments stop_tokens
                              decoder_outputs_backward alignments_backward)) s
          else return (Outputs4 decoder_outputs postnet_outputs alignments stop_tokens) s))))))))))"

definition inference ::
  "('a::plus, 'w) env \<Rightarrow> int list list \<Rightarrow> int list option \<Rightarrow> ('a outputs, 'a, 'w) action" where
  "inference env characters speaker_ids =
     bind (\<lambda>s. liftE (embedding_call (embedding s) characters) s) (\<lambda>embedded.
     let embedded_inputs = transpose12 embedded in
     bind p_init_states (\<lambda>_.
     bind (compute_speaker_embedding speaker_ids) (\<lambda>_.
     bind (\<lambda>s. call_module (encoder s) (Encoder_inference env embedded_inputs) s)
       (\<lambda>encoder_outputs.
     bind (fuse_speaker encoder_outputs) (\<lambda>encoder_outputs.
     bind (\<lambda>s. call_module (decoder s) (Decoder_inference env encoder_outputs) s)
       (\<lambda>(mel_outputs, alignments, stop_tokens).
     bind (\<lambda>s. call_module (postnet s) (Postnet_forward env mel_outputs) s)
       (\<lambda>mel_outputs_postnet.
     bind (liftE (tensor_add mel_outputs mel_outputs_postnet)) (\<lambda>mel_outputs_postnet.
     let (mel_outputs, mel_outputs_postnet, alignments) =
           shape_outputs mel_outputs mel_outputs_postnet alignments
     in return (Outputs4 mel_outputs mel_outputs_postnet alignments stop_tokens)))))))))"

text \<open>
  At line 141 the local variables that hold a tensor are \<open>embedded_inputs\<close> and
  \<open>encoder_outputs\<close>; the other names in scope are \<open>self\<close>, \<open>text\<close>,
  \<open>speaker_ids\<close> and the module's imports and class. The argument of the decoder call
  is the name \<open>encoder_output\<close>.
\<close>

definition inference_truncated ::
  "('a::plus, 'w) env \<Rightarrow> int list list \<Rightarrow> int list option \<Rightarrow> ('a outputs, 'a, 'w) action" where
  "inference_truncated env text speaker_ids =
     bind (compute_speaker_embedding speaker_ids) (\<lambda>_.
     bind (\<lambda>s. liftE (embedding_call (embedding s) text) s) (\<lambda>embedded.
     let embedded_inputs = transpose12 embedded in
     bind (\<lambda>s. call_module (encoder s) (Encoder_inference_truncated env embedded_inputs) s)
       (\<lambda>encoder_outputs.
     bind (fuse_speaker encoder_outputs) (\<lambda>encoder_outputs.
     bind (liftE (name_lookup [(''embedded_inputs'', embedded_inputs),
                               (''encoder_outputs'', encoder_outputs)] ''encoder_output''))
       (\<lambda>encoder_output.
     bind (\<lambda>s. call_module (decoder s) (Decoder_inference_truncated env encoder_output) s)
       (\<lambda>(mel_outputs, alignments, stop_tokens).
     bind (\<lambda>s. call_module (postnet s) (Postnet_forward env mel_outputs) s)
       (\<lambda>mel_outputs_postnet.
     bind (liftE (tensor_add mel_outputs mel_outputs_postnet)) (\<lambda>mel_outputs_postnet.
     let (mel_outputs, mel_outputs_postnet, alignments) =
           shape_outputs mel_outputs mel_outputs_postnet alignments
     in return (Outputs4 mel_outputs mel_outputs_postnet alignments stop_tokens)))))))))"

section \<open>Well-formed model objects\<close>

text \<open>
  What the constructor establishes and every method keeps: the speaker embedding layer is
  there exactly for a multi-speaker model, the backward decoder is there exactly for a
  bidirectional one, and the submodules are different objects.
\<close>

definition wf :: "('a, 'w) tacotron2 \<Rightarrow> bool" where
  "wf s =
     (hasattr (speaker_embedding s) = (num_speakers s > 1) \<and>
      encoder s < length (objects s) \<and> decoder s < length (objects s) \<and>
      postnet s < length (objects s) \<and>
      distinct [encoder s, decoder s, postnet s] \<and>
      (case decoder_backward s of
         Absent \<Rightarrow> \<not> bidirectional_decoder s
       | Present b \<Rightarrow>
           bidirectional_decoder s \<and> b < length (objects s) \<and>
           b \<noteq> encoder s \<and> b \<noteq> decoder s \<and> b \<noteq> postnet s))"

text \<open>What a method may change of the object: the cached speaker vector and the states
  of the module objects, whose number stays.\<close>

definition frame :: "('a, 'w) tacotron2 \<Rightarrow> ('a, 'w) tacotron2 \<Rightarrow> bool" where
  "frame s s' =
     (\<exists>c objs. s' = s\<lparr>speaker_embeddings := c, objects := objs\<rparr> \<and>
        length objs = length (objects s))"

definition framed :: "('r, 'a, 'w) action \<Rightarrow> bool" where
  "framed m = (\<forall>s r s'. m s = (r, s') \<longrightarrow> frame s s')"



section \<open>A concrete instance\<close>

text \<open>
  Small collaborators on which the methods can be run: the mask has one row per length,
  true below the length and as wide as the largest length (no largest length, no mask);
  the encoder keeps the first channel and, in training, raises when a length is beyond
  the time dimension of its input; the decoder scales the frames it is given by its
  weight and adds the sum of the encoder output and, in training, raises when the mask
  is not as wide as the encoder output is long; the postnet scales by its weight. A
  module's state is its weight and the number of calls so far.
\<close>

definition demo_mask :: "int list \<Rightarrow> error + bool list list" where
  "demo_mask lens =
     (if lens = [] then Inl (Error ''RuntimeError'' ''max(): input tensor is empty'')
      else Inr (map (\<lambda>l. map (\<lambda>i. int i < l) [0..<nat (fold max lens 0)]) lens))"

definition scale :: "int \<Rightarrow> ('a::comm_ring_1) tensor3 \<Rightarrow> 'a tensor3" where
  "scale k x = map (map (map (\<lambda>v. of_int k * v))) x"

definition demo_encoder :: "'a tensor3 \<Rightarrow> int \<times> nat \<Rightarrow> (error + 'a tensor3) \<times> (int \<times> nat)" where
  "demo_encoder x w = (Inr (map (\<lambda>item. map (\<lambda>v. [v]) (hd item)) x), (fst w, Suc (snd w)))"

definition demo_encoder_forward ::
  "'a tensor3 \<Rightarrow> int list \<Rightarrow> int \<times> nat \<Rightarrow> (error + 'a tensor3) \<times> (int \<times> nat)" where
  "demo_encoder_forward x lens w =
     (if list_all (\<lambda>l. l \<le> int (case x of [] \<Rightarrow> 0 | item # _ \<Rightarrow> size1 item)) lens
      then demo_encoder x w
      else (Inl (Error ''RuntimeError'' ''a length is beyond the length of the sequence''), w))"

definition demo_decoder ::
  "('a::comm_ring_1) tensor3 \<Rightarrow> 'a tensor3 \<Rightarrow> bool list list \<Rightarrow> int \<times> nat \<Rightarrow>
     (error + 'a decoder_result) \<times> (int \<times> nat)" where
  "demo_decoder enc frames msk w =
     (Inr (transpose12
             (map (map (map (\<lambda>v. of_int (fst w) * v + sum_list (concat (concat enc))))) frames),
           map (\<lambda>row. [map (\<lambda>b. if b then 1 else 0) row]) msk,
           map (\<lambda>f. map (\<lambda>_. 0) f) frames),
      (fst w, Suc (snd w)))"

definition demo_decoder_forward ::
  "('a::comm_ring_1) tensor3 \<Rightarrow> 'a tensor3 option \<Rightarrow> bool list list \<Rightarrow> int \<times> nat \<Rightarrow>
     (error + 'a decoder_result) \<times> (int \<times> nat)" where
  "demo_decoder_forward enc mel msk w =
     (case mel of
        None \<Rightarrow> (Inl (Error ''AttributeError'' ''NoneType object has no attribute size''), w)
      | Some frames \<Rightarrow>
          if size1 msk = size1 enc then demo_decoder enc frames msk w
          else (Inl (Error ''RuntimeError'' ''the mask does not match the encoder output''), w))"

definition demo_env :: "('a::comm_ring_1, int \<times> nat) env" where
  "demo_env =
     \<lparr>sequence_mask = demo_mask,
      Encoder_init = (\<lambda>d. Inr (1, 0)),
      Encoder_forward = demo_encoder_forward,
      Encoder_inference = (\<lambda>x w. demo_encoder x w),
      Encoder_inference_truncated = (\<lambda>x w. demo_encoder x w),
      Decoder_init = (\<lambda>dd od r opts. Inr (2, 0)),
      Decoder_forward = demo_decoder_forward,
      Decoder_inference = (\<lambda>enc w. demo_decoder enc enc [] w),
      Decoder_inference_truncated = (\<lambda>enc w. demo_decoder enc enc [] w),
      Postnet_init = (\<lambda>d. Inr (3, 0)),
      Postnet_forward = (\<lambda>x w. (Inr (scale (fst w) x), (fst w, Suc (snd w))))\<rparr>"

definition demo_samples :: "('a::comm_ring_1) samples" where
  "demo_samples =
     \<lparr>embedding_default = (\<lambda>i j. 1), embedding_uniform = (\<lambda>i j. of_nat i + 1),
      speaker_default = (\<lambda>i j. 1), speaker_normal = (\<lambda>i j. of_nat i + 5)\<rparr>"

text \<open>\<open>Tacotron2(3, 1, 1)\<close>: three characters, one speaker.\<close>

definition single_args :: "int args" where
  "single_args = default_args 3 1 1"

definition demo_single :: "(int, int \<times> nat) tacotron2" where
  "demo_single =
     \<lparr>postnet_output_dim = 80, decoder_output_dim = 80, num_speakers = 1,
      n_frames_per_step = 1, bidirectional_decoder = False,
      embedding = \<lparr>weight = table (\<lambda>i j. int i + 1) 3 512, padding_idx = Some 0\<rparr>,
      speaker_embedding = Absent, speaker_embeddings = Absent,
      encoder = 0, decoder = 1, decoder_backward = Absent, postnet = 2,
      objects = [(1, 0), (2, 0), (3, 0)]\<rparr>"

text \<open>\<open>Tacotron2(3, 2, 1, speaker_embedding_dim=1, bidirectional_decoder=True)\<close>: two
  speakers and the backward decoder.\<close>

definition multi_args :: "int args" where
  "multi_args =
     (default_args 3 2 1)\<lparr>arg_speaker_embedding_dim := 1, arg_bidirectional_decoder := True\<rparr>"

definition demo_multi :: "(int, int \<times> nat) tacotron2" where
  "demo_multi =
     \<lparr>postnet_output_dim = 80, decoder_output_dim = 80, num_speakers = 2,
      n_frames_per_step = 1, bidirectional_decoder = True,
      embedding = \<lparr>weight = table (\<lambda>i j. int i + 1) 3 512, padding_idx = Some 0\<rparr>,
      speaker_embedding = Present \<lparr>weight = [[5], [6]], padding_idx = None\<rparr>,
      speaker_embeddings = Present None,
      encoder = 0, decoder = 1, decoder_backward = Present 2, postnet = 3,
      objects = [(1, 0), (2, 0), (2, 0), (3, 0)]\<rparr>"

text \<open>\<open>Tacotron2(3, 1, 1)\<close> over the reals, with every sample of the uniform
  initialisation equal to 1/20 (the bound \<open>val\<close> is about 0.108).\<close>

definition real_samples :: "real samples" where
  "real_samples =
     \<lparr>embedding_default = (\<lambda>i j. 0), embedding_uniform = (\<lambda>i j. 1 / 20),
      speaker_default = (\<lambda>i j. 0), speaker_normal = (\<lambda>i j. 0)\<rparr>"

definition real_args :: "real args" where
  "real_args = default_args 3 1 1"

definition demo_real :: "(real, int \<times> nat) tacotron2" where
  "demo_real =
     \<lparr>postnet_output_dim = 80, decoder_output_dim = 80, num_speakers = 1,
      n_frames_per_step = 1, bidirectional_decoder = False,
      embedding = \<lparr>weight = table (\<lambda>i j. 1 / 20) 3 512, padding_idx = Some 0\<rparr>,
      speaker_embedding = Absent, speaker_embeddings = Absent,
      encoder = 0, decoder = 1, decoder_backward = Absent, postnet = 2,
      objects = [(1, 0), (2, 0), (3, 0)]\<rparr>"


section \<open>Sequencing and module calls\<close>

lemma bind_Inr_iff:
  "bind m f s = (Inr y, s') \<longleftrightarrow> (\<exists>x s1. m s = (Inr x, s1) \<and> f x s1 = (Inr y, s'))"
  by (auto simp: bind_def split: prod.splits sum.splits)

lemma call_module_Inr_iff:
  "call_module a f s = (Inr x, s') \<longleftrightarrow>
     (\<exists>w'. f (objects s ! a) = (Inr x, w') \<and> s' = s\<lparr>objects := (objects s)[a := w']\<rparr>)"
  by (auto simp: call_module_def split: prod.splits)

lemma update_self: "\<exists>c. s = s\<lparr>speaker_embeddings := c\<rparr>"
  by (rule exI[of _ "speaker_embeddings s"]) simp

text \<open>The speaker step assigns \<open>speaker_embeddings\<close> and nothing else; the fusion step
  assigns nothing and reads \<open>num_speakers\<close> and \<open>speaker_embeddings\<close> only.\<close>

lemma compute_speaker_embedding_frame:
  "compute_speaker_embedding sid s = (r, s') \<Longrightarrow> \<exists>c. s' = s\<lparr>speaker_embeddings := c\<rparr>"
  by (auto simp: compute_speaker_embedding_def raise_def return_def bind_def
        p_compute_speaker_embedding_def liftE_def update_self
      split: if_splits prod.splits sum.splits)

lemma fuse_speaker_eq:
  "fuse_speaker enc s = (r, s') \<longleftrightarrow> fst (fuse_speaker enc s) = r \<and> s' = s"
  by (auto simp: fuse_speaker_def raise_def return_def bind_def liftE_def
      split: if_splits prod.splits sum.splits)

lemma fuse_speaker_objects:
  "fst (fuse_speaker enc (s\<lparr>objects := objs\<rparr>)) = fst (fuse_speaker enc s)"
  by (auto simp: fuse_speaker_def raise_def return_def bind_def liftE_def
      split: if_splits prod.splits sum.splits)

section \<open>Tensor operations\<close>

lemma zipE_Inr:
  "zipE err f xs ys = Inr zs \<Longrightarrow>
     length ys = length xs \<and> length zs = length xs \<and>
     (\<forall>i < length xs. f (xs ! i) (ys ! i) = Inr (zs ! i))"
proof (induction err f xs ys arbitrary: zs rule: zipE.induct)
  case (2 err f x xs y ys)
  then show ?case
    by (auto split: sum.splits simp: nth_Cons split: nat.splits)
qed auto

lemma mapE_Inr:
  "mapE f xs = Inr ys \<Longrightarrow> length ys = length xs \<and> (\<forall>i < length xs. f (xs ! i) = Inr (ys ! i))"
proof (induction xs arbitrary: ys)
  case (Cons x xs)
  then show ?case
    by (auto split: sum.splits simp: nth_Cons split: nat.splits)
qed auto

lemma foldr_max_rect:
  "\<forall>row \<in> set m. length row = n \<Longrightarrow>
     foldr (\<lambda>xs. max (length xs)) m 0 = (if m = [] then 0 else n)"
  by (induction m) auto

lemma length_transpose_rect:
  "\<forall>row \<in> set m. length row = n \<Longrightarrow> m \<noteq> [] \<Longrightarrow> length (transpose m) = n"
  using foldr_max_rect[of m n] by (simp add: length_transpose)

lemma transpose_rect_nth:
  assumes "\<forall>row \<in> set m. length row = n" and "i < length m" and "j < n"
  shows "transpose m ! j ! i = m ! i ! j"
proof -
  from assms(2) have ne: "m \<noteq> []" by auto
  have len: "j < length (transpose m)"
    using length_transpose_rect[OF assms(1) ne] assms(3) by simp
  have all: "filter (\<lambda>ys. j < length ys) m = m"
    using assms(1,3) by (auto intro: filter_True)
  show ?thesis
    using assms(2) by (simp add: nth_transpose[OF len] all)
qed

text \<open>On a tensor whose batch item \<open>b\<close> is an \<open>m \<times> n\<close> matrix, \<open>transpose(1, 2)\<close> swaps
  the last two indices.\<close>

lemma transpose12_nth:
  assumes "b < length x" and "\<forall>row \<in> set (x ! b). length row = n"
    and "i < length (x ! b)" and "j < n"
  shows "transpose12 x ! b ! j ! i = x ! b ! i ! j"
  using transpose_rect_nth[OF assms(2,3,4)] assms(1) by (simp add: transpose12_def)

text \<open>On tensors of one shape, \<open>+\<close> adds entry by entry.\<close>

lemma tensor_add_elementwise:
  assumes "tensor_add x y = Inr z" and "length x = length y"
    and "b < length x" and "length (x ! b) = length (y ! b)"
    and "c < length (x ! b)" and "length (x ! b ! c) = length (y ! b ! c)"
    and "t < length (x ! b ! c)"
  shows "z ! b ! c ! t = x ! b ! c ! t + y ! b ! c ! t"
proof -
  from assms(1,2) have "zipE add_error (bcast (bcast (\<lambda>u v. Inr (u + v)))) x y = Inr z"
    by (simp add: tensor_add_def bcast_def)
  from zipE_Inr[OF this] assms(3)
  have "bcast (bcast (\<lambda>u v. Inr (u + v))) (x ! b) (y ! b) = Inr (z ! b)"
    by simp
  with assms(4) have "zipE add_error (bcast (\<lambda>u v. Inr (u + v))) (x ! b) (y ! b) = Inr (z ! b)"
    by (simp add: bcast_def)
  from zipE_Inr[OF this] assms(5)
  have "bcast (\<lambda>u v. Inr (u + v)) (x ! b ! c) (y ! b ! c) = Inr (z ! b ! c)"
    by simp
  with assms(6)
  have "zipE add_error (\<lambda>u v. Inr (u + v)) (x ! b ! c) (y ! b ! c) = Inr (z ! b ! c)"
    by (simp add: bcast_def)
  from zipE_Inr[OF this] assms(7) show ?thesis
    by simp
qed

section \<open>What a run that returns has computed\<close>

text \<open>
  A call of \<open>forward\<close> that returns has gone through every step: the values below are
  the local variables of the source, each computed from the ones before by the step named.
  The submodules are different objects, so each is called on the state it had when
  \<open>forward\<close> was entered.
\<close>

lemma forward_success:
  assumes wf: "wf s" and run: "fst (forward env chars lens mel sid s) = Inr out"
  shows "\<exists>msk emb s1 enc fused raw al st post refined.
     sequence_mask env lens = Inr msk \<and>
     embedding_call (embedding s) chars = Inr emb \<and>
     compute_speaker_embedding sid (s\<lparr>speaker_embeddings := Present None\<rparr>) = (Inr (), s1) \<and>
     fst (Encoder_forward env (transpose12 emb) lens (objects s ! encoder s)) = Inr enc \<and>
     fst (fuse_speaker enc s1) = Inr fused \<and>
     fst (Decoder_forward env fused mel msk (objects s ! decoder s)) = Inr (raw, al, st) \<and>
     fst (Postnet_forward env raw (objects s ! postnet s)) = Inr post \<and>
     tensor_add raw post = Inr refined \<and>
     (if bidirectional_decoder s
      then \<exists>b m rawb alb stb. decoder_backward s = Present b \<and> mel = Some m \<and>
             fst (Decoder_forward env fused (Some (map rev m)) msk (objects s ! b)) =
               Inr (rawb, alb, stb) \<and>
             out = Outputs6 (transpose12 raw) (transpose12 refined) al st (transpose12 rawb) alb
      else out = Outputs4 (transpose12 raw) (transpose12 refined) al st)"
proof -
  from run obtain s' where "forward env chars lens mel sid s = (Inr out, s')"
    by (cases "forward env chars lens mel sid s") auto
  then show ?thesis
    apply (simp add: forward_def bind_Inr_iff p_init_states_def liftE_def Let_def split_def
             call_module_Inr_iff shape_outputs_def)
    apply (elim exE conjE)
    apply (frule compute_speaker_embedding_frame)
    apply (elim exE)
    using wf
    apply (auto simp: wf_def fuse_speaker_eq fuse_speaker_objects return_def
             p_backward_inference_def bind_Inr_iff liftE_def getattr_def flip1_def
             call_module_Inr_iff Let_def
           split: if_splits attr.splits option.splits prod.splits)
    done
qed

lemma inference_success:
  assumes wf: "wf s" and run: "fst (inference env chars sid s) = Inr out"
  shows "\<exists>emb s1 enc fused raw al st post refined.
     embedding_call (embedding s) chars = Inr emb \<and>
     compute_speaker_embedding sid (s\<lparr>speaker_embeddings := Present None\<rparr>) = (Inr (), s1) \<and>
     fst (Encoder_inference env (transpose12 emb) (objects s ! encoder s)) = Inr enc \<and>
     fst (fuse_speaker enc s1) = Inr fused \<and>
     fst (Decoder_inference env fused (objects s ! decoder s)) = Inr (raw, al, st) \<and>
     fst (Postnet_forward env raw (objects s ! postnet s)) = Inr post \<and>
     tensor_add raw post = Inr refined \<and>
     out = Outputs4 (transpose12 raw) (transpose12 refined) al st"
proof -
  from run obtain s' where "inference env chars sid s = (Inr out, s')"
    by (cases "inference env chars sid s") auto
  then show ?thesis
    apply (simp add: inference_def bind_Inr_iff p_init_states_def liftE_def Let_def split_def
             call_module_Inr_iff shape_outputs_def)
    apply (elim exE conjE)
    apply (frule compute_speaker_embedding_frame)
    apply (elim exE)
    using wf
    apply (auto simp: wf_def fuse_speaker_eq fuse_speaker_objects return_def)
    done
qed

section \<open>What the methods keep\<close>

text \<open>A method assigns \<open>speaker_embeddings\<close> and changes the states of module objects;
  it assigns no other attribute and creates no object.\<close>

lemma frame_refl: "frame s s"
  unfolding frame_def
  by (rule exI[of _ "speaker_embeddings s"], rule exI[of _ "objects s"]) simp

lemma frame_trans:
  assumes "frame s t" and "frame t u"
  shows "frame s u"
proof -
  from assms(1) obtain c objs where
    t: "t = s\<lparr>speaker_embeddings := c, objects := objs\<rparr>" "length objs = length (objects s)"
    unfolding frame_def by blast
  from assms(2) obtain c' objs' where
    u: "u = t\<lparr>speaker_embeddings := c', objects := objs'\<rparr>" "length objs' = length (objects t)"
    unfolding frame_def by blast
  from t u show ?thesis
    unfolding frame_def
    by (intro exI[of _ c'] exI[of _ objs']) simp
qed

lemma frame_wf: "frame s t \<Longrightarrow> wf s \<Longrightarrow> wf t"
  unfolding frame_def by (auto simp: wf_def split: attr.splits)

lemma framedI: "(\<And>s r s'. m s = (r, s') \<Longrightarrow> frame s s') \<Longrightarrow> framed m"
  by (simp add: framed_def)

lemma framedD: "framed m \<Longrightarrow> m s = (r, s') \<Longrightarrow> frame s s'"
  by (simp add: framed_def)

lemma framed_return: "framed (return x)"
  by (simp add: framed_def return_def frame_refl)

lemma framed_liftE: "framed (liftE r)"
  by (simp add: framed_def liftE_def frame_refl)

lemma framed_liftE_read: "framed (\<lambda>s. liftE (g s) s)"
  by (simp add: framed_def liftE_def frame_refl)

lemma framed_call_module: "framed (\<lambda>s. call_module (g s) f s)"
proof (rule framedI)
  fix s r s'
  assume "call_module (g s) f s = (r, s')"
  then obtain w' where "s' = s\<lparr>objects := (objects s)[g s := w']\<rparr>"
    by (auto simp: call_module_def split: prod.splits)
  then show "frame s s'"
    unfolding frame_def
    by (intro exI[of _ "speaker_embeddings s"] exI[of _ "(objects s)[g s := w']"]) simp
qed

lemma framed_call_module_const: "framed (call_module a f)"
  using framed_call_module[of "\<lambda>_. a" f] by simp

lemma framed_bind:
  assumes "framed m" and "\<And>x. framed (f x)"
  shows "framed (bind m f)"
proof (rule framedI)
  fix s r s'
  assume b: "bind m f s = (r, s')"
  obtain r1 s1 where m: "m s = (r1, s1)"
    by (cases "m s")
  with assms(1) have f1: "frame s s1"
    by (rule framedD)
  show "frame s s'"
  proof (cases r1)
    case (Inl e)
    with b m have "s' = s1"
      by (simp add: bind_def)
    with f1 show ?thesis
      by simp
  next
    case (Inr x)
    with b m have "f x s1 = (r, s')"
      by (simp add: bind_def)
    with assms(2) have "frame s1 s'"
      by (rule framedD)
    with f1 show ?thesis
      by (rule frame_trans)
  qed
qed

lemma framed_if: "framed m \<Longrightarrow> framed n \<Longrightarrow> framed (\<lambda>s. if b s then m s else n s)"
  by (simp add: framed_def)

lemma framed_case_prod: "(\<And>a b. framed (f a b)) \<Longrightarrow> framed (case_prod f p)"
  by (cases p) simp

lemma framed_init_states: "framed p_init_states"
proof (rule framedI)
  fix s :: "('a, 'b) tacotron2" and r s'
  assume "p_init_states s = (r, s')"
  then have "s' = s\<lparr>speaker_embeddings := Present None\<rparr>"
    by (simp add: p_init_states_def)
  then show "frame s s'"
    unfolding frame_def
    by (intro exI[of _ "Present None"] exI[of _ "objects s"]) simp
qed

lemma framed_compute_speaker_embedding: "framed (compute_speaker_embedding sid)"
proof (rule framedI)
  fix s :: "('a, 'b) tacotron2" and r s'
  assume "compute_speaker_embedding sid s = (r, s')"
  from compute_speaker_embedding_frame[OF this] obtain c where
    "s' = s\<lparr>speaker_embeddings := c\<rparr>"
    by blast
  then show "frame s s'"
    unfolding frame_def
    by (intro exI[of _ c] exI[of _ "objects s"]) simp
qed

lemma framed_fuse_speaker: "framed (fuse_speaker enc)"
  by (simp add: framed_def fuse_speaker_eq frame_refl)

lemma framed_backward_inference: "framed (p_backward_inference env mel enc msk)"
  unfolding p_backward_inference_def Let_def
  by (intro framed_bind framed_case_prod framed_liftE_read framed_liftE framed_return
        framed_call_module_const)

lemma framed_forward: "framed (forward env chars lens mel sid)"
  unfolding forward_def Let_def shape_outputs_def prod.case
  by (intro framed_bind framed_case_prod framed_liftE_read framed_liftE framed_return
        framed_call_module framed_init_states framed_compute_speaker_embedding
        framed_fuse_speaker framed_if framed_backward_inference)

lemma framed_inference: "framed (inference env chars sid)"
  unfolding inference_def Let_def shape_outputs_def prod.case
  by (intro framed_bind framed_case_prod framed_liftE_read framed_liftE framed_return
        framed_call_module framed_init_states framed_compute_speaker_embedding
        framed_fuse_speaker)

lemma framed_inference_truncated: "framed (inference_truncated env chars sid)"
  unfolding inference_truncated_def Let_def shape_outputs_def prod.case
  by (intro framed_bind framed_case_prod framed_liftE_read framed_liftE framed_return
        framed_call_module framed_init_states framed_compute_speaker_embedding
        framed_fuse_speaker)

text \<open>Every method keeps the model well-formed and leaves the attributes that hold the
  submodules as the constructor set them.\<close>

lemma wf_forward: "wf s \<Longrightarrow> wf (snd (forward env chars lens mel sid s))"
  using framedD[OF framed_forward, of env chars lens mel sid s] frame_wf
  by (metis prod.collapse)

lemma wf_inference: "wf s \<Longrightarrow> wf (snd (inference env chars sid s))"
  using framedD[OF framed_inference, of env chars sid s] frame_wf
  by (metis prod.collapse)

lemma wf_inference_truncated: "wf s \<Longrightarrow> wf (snd (inference_truncated env chars sid s))"
  using framedD[OF framed_inference_truncated, of env chars sid s] frame_wf
  by (metis prod.collapse)

lemma forward_keeps_modules:
  "decoder_backward (snd (forward env chars lens mel sid s)) = decoder_backward s \<and>
   decoder (snd (forward env chars lens mel sid s)) = decoder s"
  using framedD[OF framed_forward, of env chars lens mel sid s]
  by (cases "forward env chars lens mel sid s") (auto simp: frame_def)

section \<open>The instance is a model the constructor builds\<close>

lemma init_single: "init demo_env demo_samples single_args = Inr demo_single"
  by code_simp

lemma init_multi: "init demo_env demo_samples multi_args = Inr demo_multi"
  by code_simp

lemma wf_demo_single: "wf demo_single"
  by code_simp

lemma wf_demo_multi: "wf demo_multi"
  by code_simp

text \<open>Runs of the instance: one utterance of two characters, three target frames of two
  channels.\<close>

lemma demo_single_forward:
  "fst (forward demo_env [[1, 2]] [2] (Some [[[1, 2], [3, 4], [5, 6]]]) None demo_single) =
     Inr (Outputs4 [[[7, 9], [11, 13], [15, 17]]] [[[28, 36], [44, 52], [60, 68]]]
            [[[1, 1]]] [[0, 0, 0]])"
  by code_simp

lemma demo_single_inference:
  "fst (inference demo_env [[1, 2]] None demo_single) =
     Inr (Outputs4 [[[9], [11]]] [[[36], [44]]] [] [[0, 0]])"
  by code_simp

lemma demo_multi_forward:
  "fst (forward demo_env [[1, 2]] [2] (Some [[[1, 2], [3, 4], [5, 6]]]) (Some [1]) demo_multi) =
     Inr (Outputs6 [[[19, 21], [23, 25], [27, 29]]] [[[76, 84], [92, 100], [108, 116]]]
            [[[1, 1]]] [[0, 0, 0]] [[[27, 29], [23, 25], [19, 21]]] [[[1, 1]]])"
  by code_simp

lemma demo_multi_inference:
  "fst (inference demo_env [[1, 2]] (Some [0]) demo_multi) =
     Inr (Outputs4 [[[19, 25], [21, 25]]] [[[76, 100], [84, 100]]] [] [[0, 0]])"
  by code_simp

lemma demo_multi_embedding:
  "embedding_call (embedding demo_multi) [[1, 2]] = Inr [[replicate 512 2, replicate 512 3]]"
  by code_simp

lemma demo_single_embedding:
  "embedding_call (embedding demo_single) [[1, 2]] = Inr [[replicate 512 2, replicate 512 3]]"
  by code_simp

section \<open>The output layout\<close>

text \<open>
  Claim C10. \<open>shape_outputs\<close> transposes the two mel tensors (axes 1 and 2 of each) and
  returns the alignments as they were given: the third component of the result is the
  third argument.
\<close>

theorem shape_outputs_alignments:
  "snd (snd (shape_outputs mel_outputs mel_outputs_postnet alignments)) = alignments \<and>
   fst (shape_outputs mel_outputs mel_outputs_postnet alignments) = transpose12 mel_outputs \<and>
   fst (snd (shape_outputs mel_outputs mel_outputs_postnet alignments)) =
     transpose12 mel_outputs_postnet"
  by (simp add: shape_outputs_def)

section \<open>The postnet residual\<close>

text \<open>
  Claim C5. In \<open>forward\<close> and in \<open>inference\<close>, a call that returns has called the
  decoder, which gave the raw mel output \<open>raw\<close>, has called the postnet on \<open>raw\<close>,
  which gave \<open>post\<close>, and has formed \<open>refined = raw + post\<close>; it returns \<open>raw\<close> and
  \<open>refined\<close>, both transposed to the time-major layout. The postnet output is added to
  the raw output and never returned in its place.
\<close>

theorem postnet_residual:
  assumes "wf s"
  shows "(fst (forward env chars lens mel sid s) = Inr out \<longrightarrow>
           (\<exists>fused msk raw al st post refined.
              fst (Decoder_forward env fused mel msk (objects s ! decoder s)) = Inr (raw, al, st) \<and>
              fst (Postnet_forward env raw (objects s ! postnet s)) = Inr post \<and>
              tensor_add raw post = Inr refined \<and>
              forward_outputs out = (transpose12 raw, transpose12 refined, al, st))) \<and>
         (fst (inference env chars sid s) = Inr out' \<longrightarrow>
           (\<exists>fused raw al st post refined.
              fst (Decoder_inference env fused (objects s ! decoder s)) = Inr (raw, al, st) \<and>
              fst (Postnet_forward env raw (objects s ! postnet s)) = Inr post \<and>
              tensor_add raw post = Inr refined \<and>
              forward_outputs out' = (transpose12 raw, transpose12 refined, al, st)))"
proof (intro conjI impI)
  assume run: "fst (forward env chars lens mel sid s) = Inr out"
  from forward_success[OF assms run] obtain msk fused raw al st post refined where
    "fst (Decoder_forward env fused mel msk (objects s ! decoder s)) = Inr (raw, al, st)"
    "fst (Postnet_forward env raw (objects s ! postnet s)) = Inr post"
    "tensor_add raw post = Inr refined"
    "forward_outputs out = (transpose12 raw, transpose12 refined, al, st)"
    by (auto split: if_splits)
  then show "\<exists>fused msk raw al st post refined.
              fst (Decoder_forward env fused mel msk (objects s ! decoder s)) = Inr (raw, al, st) \<and>
              fst (Postnet_forward env raw (objects s ! postnet s)) = Inr post \<and>
              tensor_add raw post = Inr refined \<and>
              forward_outputs out = (transpose12 raw, transpose12 refined, al, st)"
    by blast
next
  assume run: "fst (inference env chars sid s) = Inr out'"
  from inference_success[OF assms run] obtain fused raw al st post refined where
    "fst (Decoder_inference env fused (objects s ! decoder s)) = Inr (raw, al, st)"
    "fst (Postnet_forward env raw (objects s ! postnet s)) = Inr post"
    "tensor_add raw post = Inr refined"
    "forward_outputs out' = (transpose12 raw, transpose12 refined, al, st)"
    by auto
  then show "\<exists>fused raw al st post refined.
              fst (Decoder_inference env fused (objects s ! decoder s)) = Inr (raw, al, st) \<and>
              fst (Postnet_forward env raw (objects s ! postnet s)) = Inr post \<and>
              tensor_add raw post = Inr refined \<and>
              forward_outputs out' = (transpose12 raw, transpose12 refined, al, st)"
    by blast
qed

theorem postnet_residual_witness:
  "wf demo_single \<and>
   fst (forward demo_env [[1, 2]] [2] (Some [[[1, 2], [3, 4], [5, 6]]]) None demo_single) =
     Inr (Outputs4 [[[7, 9], [11, 13], [15, 17]]] [[[28, 36], [44, 52], [60, 68]]]
            [[[1, 1]]] [[0, 0, 0]]) \<and>
   fst (inference demo_env [[1, 2]] None demo_single) =
     Inr (Outputs4 [[[9], [11]]] [[[36], [44]]] [] [[0, 0]]) \<and>
   (\<exists>fused msk raw al st post refined.
      fst (Decoder_forward (demo_env :: (int, int \<times> nat) env) fused (Some [[[1, 2], [3, 4], [5, 6]]]) msk
             (objects demo_single ! decoder demo_single)) = Inr (raw, al, st) \<and>
      fst (Postnet_forward demo_env raw (objects demo_single ! postnet demo_single)) = Inr post \<and>
      tensor_add raw post = Inr refined \<and>
      forward_outputs (Outputs4 [[[7, 9], [11, 13], [15, 17]]] [[[28, 36], [44, 52], [60, 68]]]
                         [[[1, 1]]] [[0, 0, 0]]) =
        (transpose12 raw, transpose12 refined, al, st)) \<and>
   (\<exists>fused raw al st post refined.
      fst (Decoder_inference (demo_env :: (int, int \<times> nat) env) fused (objects demo_single ! decoder demo_single)) =
        Inr (raw, al, st) \<and>
      fst (Postnet_forward demo_env raw (objects demo_single ! postnet demo_single)) = Inr post \<and>
      tensor_add raw post = Inr refined \<and>
      forward_outputs (Outputs4 [[[9], [11]]] [[[36], [44]]] [] [[0, 0]]) =
        (transpose12 raw, transpose12 refined, al, st))"
proof -
  note w = wf_demo_single and f = demo_single_forward and i = demo_single_inference
  from postnet_residual[OF w, where env = demo_env and chars = "[[1, 2]]" and lens = "[2]"
      and mel = "Some [[[1, 2], [3, 4], [5, 6]]]" and sid = None
      and out = "Outputs4 [[[7, 9], [11, 13], [15, 17]]] [[[28, 36], [44, 52], [60, 68]]]
                   [[[1, 1]]] [[0, 0, 0]]"
      and out' = "Outputs4 [[[9], [11]]] [[[36], [44]]] [] [[0, 0]]"] w f i
  show ?thesis
    by blast
qed

section \<open>What the constructor builds\<close>

lemma Embedding_padding_row:
  "Embedding draw num d (Some p) = Inr e \<Longrightarrow> weight e ! p = replicate (nat d) 0"
  by (auto simp: Embedding_def Let_def table_def split: if_splits)

lemma Embedding_shape:
  "Embedding draw num d pad = Inr e \<Longrightarrow>
     length (weight e) = nat num \<and> (\<forall>i < nat num. length (weight e ! i) = nat d)"
  by (auto simp: Embedding_def Let_def table_def nth_list_update split: if_splits option.splits)

lemma Embedding_padding_in_range:
  "Embedding draw num d (Some p) = Inr e \<Longrightarrow> int p < num"
  by (auto simp: Embedding_def Let_def split: if_splits)

lemma fill_weight_table:
  "\<forall>i < length (weight e). length (weight e ! i) = d \<Longrightarrow>
     weight (fill_weight u e) = table u (length (weight e)) d"
  by (auto simp: fill_weight_def table_def)

text \<open>What a constructor call that returns has built.\<close>

lemma init_Inr:
  assumes "init env smp a = Inr s"
  shows "\<exists>emb0 enc dec post.
     Embedding (embedding_default smp) (arg_num_chars a) 512 (Some 0) = Inr emb0 \<and>
     embedding s = fill_weight (embedding_uniform smp) emb0 \<and>
     hasattr (speaker_embedding s) = (arg_num_speakers a > 1) \<and>
     num_speakers s = arg_num_speakers a \<and>
     bidirectional_decoder s = arg_bidirectional_decoder a \<and>
     encoder s = 0 \<and> decoder s = 1 \<and>
     decoder_backward s = (if arg_bidirectional_decoder a then Present 2 else Absent) \<and>
     postnet s = (if arg_bidirectional_decoder a then 3 else 2) \<and>
     objects s = [enc, dec] @ (if arg_bidirectional_decoder a then [dec] else []) @ [post]"
  using assms
  by (auto simp: init_def bindE_def Let_def new_object_def deepcopy_def hasattr_def
      split: sum.splits if_splits)

lemma init_embedding:
  assumes "init env smp a = Inr s"
  shows "weight (embedding s) = table (embedding_uniform smp) (nat (arg_num_chars a)) 512 \<and>
         0 < arg_num_chars a"
proof -
  from init_Inr[OF assms] obtain emb0 where
    e: "Embedding (embedding_default smp) (arg_num_chars a) 512 (Some 0) = Inr emb0"
    and f: "embedding s = fill_weight (embedding_uniform smp) emb0"
    by blast
  from Embedding_shape[OF e] have "weight (fill_weight (embedding_uniform smp) emb0) =
      table (embedding_uniform smp) (length (weight emb0)) 512"
    by (intro fill_weight_table) simp
  with Embedding_shape[OF e] Embedding_padding_in_range[OF e] f show ?thesis
    by simp
qed

lemma init_wf:
  assumes "init env smp a = Inr s"
  shows "wf s"
  using init_Inr[OF assms] by (auto simp: wf_def)

lemma init_backward_copy:
  assumes "init env smp a = Inr s" and "arg_bidirectional_decoder a"
  shows "\<exists>b. decoder_backward s = Present b \<and> b \<noteq> decoder s \<and> b < length (objects s) \<and>
           decoder s < length (objects s) \<and> objects s ! b = objects s ! decoder s"
  using init_Inr[OF assms(1)] assms(2) by auto

text \<open>After the constructor, the row of token id 0 is the row of uniform samples that line
  44 has written over the zero row of \<open>padding_idx=0\<close>.\<close>

lemma init_padding_row:
  assumes "init env smp a = Inr s"
  shows "embedding_call (embedding s) [[0]] = Inr [[map (embedding_uniform smp 0) [0..<512]]]"
proof -
  from init_embedding[OF assms]
  have "embedding_row (embedding s) 0 = Inr (map (embedding_uniform smp 0) [0..<512])"
    by (simp add: embedding_row_def table_def)
  then show ?thesis
    by (simp add: embedding_call_def)
qed

lemma init_real: "init demo_env real_samples real_args = Inr demo_real"
  by code_simp

lemma uniform_sample_real:
  "uniform_sample (arg_num_chars real_args) (embedding_uniform real_samples)"
proof -
  have v: "val 3 = sqrt (6 / 515)"
    by (simp add: val_def std_def real_sqrt_mult[symmetric])
  have "(1::real) / 20 = sqrt (1 / 400)"
    by (simp add: real_sqrt_divide)
  also have "\<dots> < sqrt (6 / 515)"
    by (subst real_sqrt_less_iff) simp
  finally have lt: "(1::real) / 20 < val 3"
    using v by simp
  then show ?thesis
    by (simp add: uniform_sample_def real_samples_def real_args_def default_args_def)
qed

section \<open>The padding row\<close>

text \<open>
  Claim C3 says that after construction token id 0 maps to the all-zero vector. The
  constructor asks for it (\<open>padding_idx=0\<close> makes \<open>nn.Embedding\<close> zero row 0) and then
  line 44 overwrites the whole table, row 0 included, with uniform samples. For
  \<open>Tacotron2(3, 1, 1)\<close> and samples that are all 1/20 (inside the bounds), looking up
  token id 0 gives a row of 1/20, not the zero row.
\<close>

theorem padding_row_not_zero:
  "uniform_sample (arg_num_chars real_args) (embedding_uniform real_samples) \<and>
   init demo_env real_samples real_args = Inr demo_real \<and>
   embedding_call (embedding demo_real) [[0]] = Inr [[replicate 512 (1 / 20)]] \<and>
   embedding_call (embedding demo_real) [[0]] \<noteq> Inr [[replicate 512 0]]"
proof -
  have b: "embedding_call (embedding demo_real) [[0]] = Inr [[replicate 512 (1 / 20)]]"
    by code_simp
  have c: "embedding_call (embedding demo_real) [[0]] \<noteq> Inr [[replicate 512 0]]"
    by code_simp
  from uniform_sample_real init_real b c show ?thesis
    by blast
qed

section \<open>The speaker id\<close>

lemma compute_speaker_embedding_None:
  "hasattr (speaker_embedding s) \<Longrightarrow> compute_speaker_embedding None s = (Inl no_speaker_id, s)"
  by (simp add: compute_speaker_embedding_def raise_def)

lemma compute_speaker_embedding_single:
  "\<not> hasattr (speaker_embedding s) \<Longrightarrow> compute_speaker_embedding sid s = (Inr (), s)"
  by (simp add: compute_speaker_embedding_def return_def)

lemma forward_no_speaker_id:
  assumes "hasattr (speaker_embedding s)" and "sequence_mask env lens = Inr msk"
    and "embedding_call (embedding s) chars = Inr emb"
  shows "fst (forward env chars lens mel None s) = Inl no_speaker_id"
  using assms
  by (simp add: forward_def bind_def p_init_states_def liftE_def Let_def
        compute_speaker_embedding_None)

lemma inference_no_speaker_id:
  assumes "hasattr (speaker_embedding s)" and "embedding_call (embedding s) chars = Inr emb"
  shows "fst (inference env chars None s) = Inl no_speaker_id"
  using assms
  by (simp add: inference_def bind_def p_init_states_def liftE_def Let_def
        compute_speaker_embedding_None)

lemma inference_truncated_no_speaker_id:
  assumes "hasattr (speaker_embedding s)"
  shows "inference_truncated env text None s = (Inl no_speaker_id, s)"
  using assms
  by (simp add: inference_truncated_def bind_def compute_speaker_embedding_None)

lemma forward_single_any_id:
  assumes "\<not> hasattr (speaker_embedding s)"
  shows "forward env chars lens mel sid s = forward env chars lens mel sid' s"
  using assms
  by (simp add: forward_def bind_def p_init_states_def liftE_def Let_def
        compute_speaker_embedding_single split: sum.splits prod.splits)

lemma inference_single_any_id:
  assumes "\<not> hasattr (speaker_embedding s)"
  shows "inference env chars sid s = inference env chars sid' s"
  using assms
  by (simp add: inference_def bind_def p_init_states_def liftE_def Let_def
        compute_speaker_embedding_single split: sum.splits prod.splits)

text \<open>
  Claim C1, as amended. A multi-speaker model called with no speaker id raises
  \<open>RuntimeError\<close> with the message of line 68 (there is no \<open>ConfigurationError\<close>): in
  \<open>forward\<close> once the mask and the token embedding, which come first, have succeeded,
  in \<open>inference\<close> once the token embedding has. A single-speaker model called with no
  speaker id does what it does with any speaker id: the speaker step returns and changes
  nothing.
\<close>

theorem missing_speaker_id:
  assumes "wf s"
  shows "(num_speakers s > 1 \<longrightarrow> sequence_mask env lens = Inr msk \<longrightarrow>
            embedding_call (embedding s) chars = Inr emb \<longrightarrow>
            fst (forward env chars lens mel None s) =
              Inl (Error ''RuntimeError''
                     '' [!] Model has speaker embedding layer but speaker_id is not provided'')) \<and>
         (num_speakers s > 1 \<longrightarrow> embedding_call (embedding s) chars = Inr emb \<longrightarrow>
            fst (inference env chars None s) =
              Inl (Error ''RuntimeError''
                     '' [!] Model has speaker embedding layer but speaker_id is not provided'')) \<and>
         (\<not> num_speakers s > 1 \<longrightarrow>
            compute_speaker_embedding None s = (Inr (), s) \<and>
            forward env chars lens mel None s = forward env chars lens mel sid s \<and>
            inference env chars None s = inference env chars sid s)"
proof -
  from assms have h: "hasattr (speaker_embedding s) = (num_speakers s > 1)"
    by (simp add: wf_def)
  show ?thesis
    using h forward_no_speaker_id[of s env lens msk chars emb mel]
      inference_no_speaker_id[of s chars emb env]
      compute_speaker_embedding_single[of s None]
      forward_single_any_id[of s env chars lens mel None sid]
      inference_single_any_id[of s env chars None sid]
    by (simp add: no_speaker_id_def)
qed

theorem missing_speaker_id_witness:
  "wf demo_multi \<and> num_speakers demo_multi > 1 \<and>
   sequence_mask (demo_env :: (int, int \<times> nat) env) [2] = Inr [[True, True]] \<and>
   embedding_call (embedding demo_multi) [[1, 2]] = Inr [[replicate 512 2, replicate 512 3]] \<and>
   fst (forward demo_env [[1, 2]] [2] (Some [[[1, 2], [3, 4], [5, 6]]]) None demo_multi) =
     Inl (Error ''RuntimeError''
            '' [!] Model has speaker embedding layer but speaker_id is not provided'') \<and>
   fst (inference demo_env [[1, 2]] None demo_multi) =
     Inl (Error ''RuntimeError''
            '' [!] Model has speaker embedding layer but speaker_id is not provided'') \<and>
   wf demo_single \<and> \<not> num_speakers demo_single > 1 \<and>
   compute_speaker_embedding None demo_single = (Inr (), demo_single) \<and>
   forward demo_env [[1, 2]] [2] (Some [[[1, 2], [3, 4], [5, 6]]]) None demo_single =
     forward demo_env [[1, 2]] [2] (Some [[[1, 2], [3, 4], [5, 6]]]) (Some [0]) demo_single \<and>
   inference demo_env [[1, 2]] None demo_single =
     inference demo_env [[1, 2]] (Some [0]) demo_single \<and>
   fst (inference demo_env [[1, 2]] None demo_single) =
     Inr (Outputs4 [[[9], [11]]] [[[36], [44]]] [] [[0, 0]])"
proof -
  note w2 = wf_demo_multi and e = demo_multi_embedding
    and w1 = wf_demo_single and r = demo_single_inference
  have n2: "num_speakers demo_multi > 1" by code_simp
  have m: "sequence_mask (demo_env :: (int, int \<times> nat) env) [2] = Inr [[True, True]]"
    by code_simp
  have n1: "\<not> num_speakers demo_single > 1" by code_simp
  from missing_speaker_id[OF w2, where env = demo_env and lens = "[2]" and msk = "[[True, True]]"
      and chars = "[[1, 2]]" and emb = "[[replicate 512 2, replicate 512 3]]"
      and mel = "Some [[[1, 2], [3, 4], [5, 6]]]"]
    missing_speaker_id[OF w1, where env = demo_env and lens = "[2]"
      and chars = "[[1, 2]]" and mel = "Some [[[1, 2], [3, 4], [5, 6]]]" and sid = "Some [0]"]
    w2 n2 m e w1 n1 r
  show ?thesis
    by blast
qed

text \<open>The claim as stated fails: the error of a multi-speaker model called with no speaker id
  is not a \<open>ConfigurationError\<close> and does not carry the message the claim gives.\<close>

theorem missing_speaker_id_counterexample:
  "init demo_env demo_samples multi_args = Inr demo_multi \<and>
   arg_num_speakers multi_args > 1 \<and>
   fst (inference demo_env [[1, 2]] None demo_multi) =
     Inl (Error ''RuntimeError''
            '' [!] Model has speaker embedding layer but speaker_id is not provided'') \<and>
   fst (inference demo_env [[1, 2]] None demo_multi) \<noteq>
     Inl (Error ''ConfigurationError''
            ''speaker embedding layer present but no speaker id supplied'')"
  by code_simp

section \<open>Truncated inference\<close>

lemma inference_truncated_raises:
  "inference_truncated env chars sid s \<noteq> (Inr out, s')"
  by (simp add: inference_truncated_def bind_Inr_iff liftE_def Let_def name_lookup_def)

text \<open>
  Claim C2, as amended. No call of \<open>inference_truncated\<close> returns. A call whose speaker
  step, token embedding, encoder call and speaker fusion succeed raises \<open>NameError\<close> for
  \<open>encoder_output\<close> at the decoder call of line 140; a call in which one of these steps
  raises does not reach line 140.
\<close>

theorem inference_truncated_never_returns:
  "(\<exists>e. fst (inference_truncated env chars sid s) = Inl e) \<and>
   (compute_speaker_embedding sid s = (Inr (), s1) \<longrightarrow>
    embedding_call (embedding s1) chars = Inr emb \<longrightarrow>
    fst (Encoder_inference_truncated env (transpose12 emb) (objects s1 ! encoder s1)) = Inr enc \<longrightarrow>
    fst (fuse_speaker enc s1) = Inr fused \<longrightarrow>
    fst (inference_truncated env chars sid s) =
      Inl (Error ''NameError'' ''name encoder_output is not defined''))"
proof (intro conjI impI)
  show "\<exists>e. fst (inference_truncated env chars sid s) = Inl e"
    using inference_truncated_raises[of env chars sid s]
    by (cases "inference_truncated env chars sid s"; cases "fst (inference_truncated env chars sid s)")
       auto
next
  assume c: "compute_speaker_embedding sid s = (Inr (), s1)"
    and e: "embedding_call (embedding s1) chars = Inr emb"
    and n: "fst (Encoder_inference_truncated env (transpose12 emb) (objects s1 ! encoder s1)) = Inr enc"
    and f: "fst (fuse_speaker enc s1) = Inr fused"
  obtain w' where n': "Encoder_inference_truncated env (transpose12 emb) (objects s1 ! encoder s1) = (Inr enc, w')"
    using n by (cases "Encoder_inference_truncated env (transpose12 emb) (objects s1 ! encoder s1)") auto
  have f': "fuse_speaker enc (s1\<lparr>objects := (objects s1)[encoder s1 := w']\<rparr>) =
      (Inr fused, s1\<lparr>objects := (objects s1)[encoder s1 := w']\<rparr>)"
    using f by (simp add: fuse_speaker_eq fuse_speaker_objects)
  show "fst (inference_truncated env chars sid s) =
      Inl (Error ''NameError'' ''name encoder_output is not defined'')"
    using c e n' f'
    by (simp add: inference_truncated_def bind_def liftE_def Let_def call_module_def name_lookup_def)
qed

theorem inference_truncated_never_returns_witness:
  "compute_speaker_embedding None demo_single = (Inr (), demo_single) \<and>
   embedding_call (embedding demo_single) [[1, 2]] = Inr [[replicate 512 2, replicate 512 3]] \<and>
   fst (Encoder_inference_truncated demo_env (transpose12 [[replicate 512 2, replicate 512 3]])
          (objects demo_single ! encoder demo_single)) = Inr [[[2], [3 :: int]]] \<and>
   fst (fuse_speaker [[[2], [3]]] demo_single) = Inr [[[2], [3]]] \<and>
   (\<exists>e. fst (inference_truncated demo_env [[1, 2]] None demo_single) = Inl e) \<and>
   fst (inference_truncated demo_env [[1, 2]] None demo_single) =
     Inl (Error ''NameError'' ''name encoder_output is not defined'')"
proof -
  have c: "compute_speaker_embedding None demo_single = (Inr (), demo_single)"
    by code_simp
  note e = demo_single_embedding
  have n: "fst (Encoder_inference_truncated demo_env
                  (transpose12 [[replicate 512 2, replicate 512 3]])
                  (objects demo_single ! encoder demo_single)) = Inr [[[2], [3 :: int]]]"
    by code_simp
  have f: "fst (fuse_speaker [[[2], [3]]] demo_single) = Inr [[[2], [3]]]"
    by code_simp
  from inference_truncated_never_returns[where env = demo_env and sid = None
      and s = demo_single and ?s1.0 = demo_single and chars = "[[1, 2]]"
      and emb = "[[replicate 512 2, replicate 512 3]]" and enc = "[[[2], [3]]]"
      and fused = "[[[2], [3]]]"] c e n f
  show ?thesis
    by blast
qed

text \<open>The claim as stated fails: a multi-speaker model called with no speaker id raises at
  line 129, before the encoder and the decoder call, and the object is as it was.\<close>

theorem inference_truncated_counterexample:
  "init demo_env demo_samples multi_args = Inr demo_multi \<and>
   inference_truncated demo_env [[1, 2]] None demo_multi =
     (Inl (Error ''RuntimeError''
             '' [!] Model has speaker embedding layer but speaker_id is not provided''),
      demo_multi) \<and>
   fst (inference_truncated demo_env [[1, 2]] None demo_multi) \<noteq>
     Inl (Error ''NameError'' ''name encoder_output is not defined'')"
  by code_simp

section \<open>The validity mask\<close>



subsection \<open>Where an error of the training call comes from\<close>


































section \<open>The backward decoder\<close>

text \<open>
  Claim C6. A call of \<open>forward\<close> on a bidirectional model that returns has called the
  backward decoder on the target frames reversed in time, with the fused encoder output
  and the mask the forward decoder was called with, and returns the six-tuple whose last
  two components are the backward mel frames (transposed) and the backward alignments.
  On a model that is not bidirectional there is no backward decoder and the call returns
  the four-tuple.
\<close>

theorem backward_decoder:
  assumes "wf s" and "fst (forward env chars lens mel sid s) = Inr out"
  shows "(bidirectional_decoder s \<longrightarrow>
            (\<exists>b m fused msk raw al st refined rawb alb stb.
               decoder_backward s = Present b \<and> mel = Some m \<and>
               fst (Decoder_forward env fused (Some m) msk (objects s ! decoder s)) =
                 Inr (raw, al, st) \<and>
               fst (Decoder_forward env fused (Some (map rev m)) msk (objects s ! b)) =
                 Inr (rawb, alb, stb) \<and>
               out = Outputs6 (transpose12 raw) (transpose12 refined) al st
                       (transpose12 rawb) alb)) \<and>
         (\<not> bidirectional_decoder s \<longrightarrow>
            decoder_backward s = Absent \<and> (\<exists>d p al st. out = Outputs4 d p al st))"
proof (intro conjI impI)
  assume b: "bidirectional_decoder s"
  from forward_success[OF assms] b
  show "\<exists>b m fused msk raw al st refined rawb alb stb.
               decoder_backward s = Present b \<and> mel = Some m \<and>
               fst (Decoder_forward env fused (Some m) msk (objects s ! decoder s)) =
                 Inr (raw, al, st) \<and>
               fst (Decoder_forward env fused (Some (map rev m)) msk (objects s ! b)) =
                 Inr (rawb, alb, stb) \<and>
               out = Outputs6 (transpose12 raw) (transpose12 refined) al st
                       (transpose12 rawb) alb"
    by (simp, elim exE conjE, simp) blast
next
  assume b: "\<not> bidirectional_decoder s"
  with assms(1) show "decoder_backward s = Absent"
    by (auto simp: wf_def split: attr.splits)
next
  assume b: "\<not> bidirectional_decoder s"
  with forward_success[OF assms] show "\<exists>d p al st. out = Outputs4 d p al st"
    by auto
qed

theorem backward_decoder_witness:
  "wf demo_multi \<and> bidirectional_decoder demo_multi \<and>
   fst (forward demo_env [[1, 2]] [2] (Some [[[1, 2], [3, 4], [5, 6]]]) (Some [1]) demo_multi) =
     Inr (Outputs6 [[[19, 21], [23, 25], [27, 29]]] [[[76, 84], [92, 100], [108, 116]]]
            [[[1, 1]]] [[0, 0, 0]] [[[27, 29], [23, 25], [19, 21]]] [[[1, 1]]]) \<and>
   (\<exists>b m fused msk raw al st refined rawb alb stb.
      decoder_backward demo_multi = Present b \<and> Some [[[1, 2], [3, 4], [5, 6]]] = Some m \<and>
      fst (Decoder_forward (demo_env :: (int, int \<times> nat) env) fused (Some m) msk
             (objects demo_multi ! decoder demo_multi)) = Inr (raw, al, st) \<and>
      fst (Decoder_forward demo_env fused (Some (map rev m)) msk (objects demo_multi ! b)) =
        Inr (rawb, alb, stb) \<and>
      Outputs6 [[[19, 21], [23, 25], [27, 29]]] [[[76, 84], [92, 100], [108, 116]]]
            [[[1, 1]]] [[0, 0, 0]] [[[27, 29], [23, 25], [19, 21]]] [[[1, 1]]] =
        Outputs6 (transpose12 raw) (transpose12 refined) al st (transpose12 rawb) alb) \<and>
   wf demo_single \<and> \<not> bidirectional_decoder demo_single \<and>
   fst (forward demo_env [[1, 2]] [2] (Some [[[1, 2], [3, 4], [5, 6]]]) None demo_single) =
     Inr (Outputs4 [[[7, 9], [11, 13], [15, 17]]] [[[28, 36], [44, 52], [60, 68]]]
            [[[1, 1]]] [[0, 0, 0]]) \<and>
   decoder_backward demo_single = Absent"
proof -
  note w2 = wf_demo_multi and f2 = demo_multi_forward
    and w1 = wf_demo_single and f1 = demo_single_forward
  have b2: "bidirectional_decoder demo_multi" by code_simp
  have b1: "\<not> bidirectional_decoder demo_single" by code_simp
  from backward_decoder[OF w2 f2] backward_decoder[OF w1 f1] w2 b2 f2 w1 b1 f1
  show ?thesis
    by blast
qed

section \<open>Independence of the forward path\<close>

lemma wf_objects_update: "wf s \<Longrightarrow> wf (s\<lparr>objects := (objects s)[b := w]\<rparr>)"
  by (simp add: wf_def split: attr.splits)

lemma compute_speaker_embedding_cong:
  assumes "compute_speaker_embedding sid s = (Inr (), s1)"
    and "compute_speaker_embedding sid t = (Inr (), t1)"
    and "speaker_embedding t = speaker_embedding s"
    and "speaker_embeddings t = speaker_embeddings s"
    and "num_speakers t = num_speakers s"
  shows "speaker_embeddings t1 = speaker_embeddings s1 \<and> num_speakers t1 = num_speakers s1"
  using assms
  by (auto simp: compute_speaker_embedding_def raise_def return_def bind_def
        p_compute_speaker_embedding_def liftE_def
      split: if_splits prod.splits sum.splits)

lemma fuse_speaker_cong:
  "num_speakers t = num_speakers s \<Longrightarrow> speaker_embeddings t = speaker_embeddings s \<Longrightarrow>
     fst (fuse_speaker enc t) = fst (fuse_speaker enc s)"
  by (simp add: fuse_speaker_def bind_def liftE_def return_def split: sum.splits)

lemma forward_outputs_independent:
  assumes w: "wf s" and db: "decoder_backward s = Present b"
    and r1: "fst (forward env chars lens mel sid s) = Inr o1"
    and r2: "fst (forward env chars lens mel sid (s\<lparr>objects := (objects s)[b := w']\<rparr>)) = Inr o2"
  shows "forward_outputs o1 = forward_outputs o2"
proof -
  let ?t = "s\<lparr>objects := (objects s)[b := w']\<rparr>"
  have w2: "wf ?t"
    using w by (rule wf_objects_update)
  from w db have ne: "b \<noteq> encoder s" "b \<noteq> decoder s" "b \<noteq> postnet s"
    by (auto simp: wf_def)
  from forward_success[OF w r1] obtain msk emb s1 enc fused raw al st post refined where
    a: "sequence_mask env lens = Inr msk"
      "embedding_call (embedding s) chars = Inr emb"
      "compute_speaker_embedding sid (s\<lparr>speaker_embeddings := Present None\<rparr>) = (Inr (), s1)"
      "fst (Encoder_forward env (transpose12 emb) lens (objects s ! encoder s)) = Inr enc"
      "fst (fuse_speaker enc s1) = Inr fused"
      "fst (Decoder_forward env fused mel msk (objects s ! decoder s)) = Inr (raw, al, st)"
      "fst (Postnet_forward env raw (objects s ! postnet s)) = Inr post"
      "tensor_add raw post = Inr refined"
      "forward_outputs o1 = (transpose12 raw, transpose12 refined, al, st)"
    by (auto split: if_splits)
  from forward_success[OF w2 r2] ne obtain msk' emb' t1 enc' fused' raw' al' st' post' refined'
    where b: "sequence_mask env lens = Inr msk'"
      "embedding_call (embedding s) chars = Inr emb'"
      "compute_speaker_embedding sid (?t\<lparr>speaker_embeddings := Present None\<rparr>) = (Inr (), t1)"
      "fst (Encoder_forward env (transpose12 emb') lens (objects s ! encoder s)) = Inr enc'"
      "fst (fuse_speaker enc' t1) = Inr fused'"
      "fst (Decoder_forward env fused' mel msk' (objects s ! decoder s)) = Inr (raw', al', st')"
      "fst (Postnet_forward env raw' (objects s ! postnet s)) = Inr post'"
      "tensor_add raw' post' = Inr refined'"
      "forward_outputs o2 = (transpose12 raw', transpose12 refined', al', st')"
    by (auto split: if_splits)
  from a(1) b(1) have m: "msk' = msk" by simp
  from a(2) b(2) have e: "emb' = emb" by simp
  from a(4) b(4) e have n: "enc' = enc" by simp
  from compute_speaker_embedding_cong[OF a(3) b(3)]
  have "speaker_embeddings t1 = speaker_embeddings s1" "num_speakers t1 = num_speakers s1"
    by simp_all
  then have "fst (fuse_speaker enc t1) = fst (fuse_speaker enc s1)"
    by (intro fuse_speaker_cong)
  with a(5) b(5) n have f: "fused' = fused" by simp
  from a(6) b(6) m f have d: "raw' = raw" "al' = al" "st' = st" by simp_all
  from a(7) b(7) d have "post' = post" by simp
  with a(8) b(8) d have "refined' = refined" by simp
  with a(9) b(9) d show ?thesis by simp
qed

text \<open>
  Claim C7. The constructor of a bidirectional model makes the backward decoder a new
  object with the state of the forward decoder, and \<open>forward\<close> leaves the attributes
  \<open>decoder\<close> and \<open>decoder_backward\<close> as they are. Two calls of \<open>forward\<close> on the
  same input, on models that differ in the state of the backward decoder only, return
  the same four forward outputs.
\<close>

theorem backward_decoder_independent:
  "(init env smp a = Inr s \<longrightarrow> arg_bidirectional_decoder a \<longrightarrow>
      (\<exists>b. decoder_backward s = Present b \<and> b \<noteq> decoder s \<and> b < length (objects s) \<and>
           decoder s < length (objects s) \<and> objects s ! b = objects s ! decoder s)) \<and>
   (wf t \<longrightarrow> decoder_backward t = Present b \<longrightarrow>
      fst (forward env chars lens mel sid t) = Inr o1 \<longrightarrow>
      fst (forward env chars lens mel sid (t\<lparr>objects := (objects t)[b := w]\<rparr>)) = Inr o2 \<longrightarrow>
      forward_outputs o1 = forward_outputs o2) \<and>
   decoder_backward (snd (forward env chars lens mel sid t)) = decoder_backward t \<and>
   decoder (snd (forward env chars lens mel sid t)) = decoder t"
  using init_backward_copy[of env smp a s]
    forward_outputs_independent[of t b env chars lens mel sid o1 w o2]
    forward_keeps_modules[of env chars lens mel sid t]
  by blast

theorem backward_decoder_independent_witness:
  "init demo_env demo_samples multi_args = Inr demo_multi \<and>
   arg_bidirectional_decoder multi_args \<and>
   (\<exists>b. decoder_backward demo_multi = Present b \<and> b \<noteq> decoder demo_multi \<and>
        b < length (objects demo_multi) \<and> decoder demo_multi < length (objects demo_multi) \<and>
        objects demo_multi ! b = objects demo_multi ! decoder demo_multi) \<and>
   wf demo_multi \<and> decoder_backward demo_multi = Present 2 \<and>
   fst (forward demo_env [[1, 2]] [2] (Some [[[1, 2], [3, 4], [5, 6]]]) (Some [1]) demo_multi) =
     Inr (Outputs6 [[[19, 21], [23, 25], [27, 29]]] [[[76, 84], [92, 100], [108, 116]]]
            [[[1, 1]]] [[0, 0, 0]] [[[27, 29], [23, 25], [19, 21]]] [[[1, 1]]]) \<and>
   fst (forward demo_env [[1, 2]] [2] (Some [[[1, 2], [3, 4], [5, 6]]]) (Some [1])
          (demo_multi\<lparr>objects := (objects demo_multi)[2 := (7, 0)]\<rparr>)) =
     Inr (Outputs6 [[[19, 21], [23, 25], [27, 29]]] [[[76, 84], [92, 100], [108, 116]]]
            [[[1, 1]]] [[0, 0, 0]] [[[52, 59], [38, 45], [24, 31]]] [[[1, 1]]]) \<and>
   forward_outputs
     (Outputs6 [[[19, 21], [23, 25], [27, 29]]] [[[76, 84], [92, 100], [108, 116]]]
        [[[1, 1]]] [[0, 0, 0]] [[[27, 29], [23, 25], [19, 21]]] [[[1 :: int, 1]]]) =
   forward_outputs
     (Outputs6 [[[19, 21], [23, 25], [27, 29]]] [[[76, 84], [92, 100], [108, 116]]]
        [[[1, 1]]] [[0, 0, 0]] [[[52, 59], [38, 45], [24, 31]]] [[[1, 1]]]) \<and>
   decoder_backward
     (snd (forward demo_env [[1, 2]] [2] (Some [[[1, 2], [3, 4], [5, 6]]]) (Some [1])
             demo_multi)) = decoder_backward demo_multi \<and>
   decoder
     (snd (forward demo_env [[1, 2]] [2] (Some [[[1, 2], [3, 4], [5, 6]]]) (Some [1])
             demo_multi)) = decoder demo_multi"
proof -
  have a: "arg_bidirectional_decoder multi_args"
    by code_simp
  have d: "decoder_backward demo_multi = Present 2"
    by code_simp
  have f2: "fst (forward demo_env [[1, 2]] [2] (Some [[[1, 2], [3, 4], [5, 6]]]) (Some [1])
          (demo_multi\<lparr>objects := (objects demo_multi)[2 := (7, 0)]\<rparr>)) =
     Inr (Outputs6 [[[19, 21], [23, 25], [27, 29]]] [[[76, 84], [92, 100], [108, 116]]]
            [[[1, 1]]] [[0, 0, 0]] [[[52, 59], [38, 45], [24, 31]]] [[[1, 1]]])"
    by code_simp
  from backward_decoder_independent[where env = demo_env and smp = demo_samples
      and a = multi_args and s = demo_multi and t = demo_multi and b = 2
      and chars = "[[1, 2]]" and lens = "[2]" and mel = "Some [[[1, 2], [3, 4], [5, 6]]]"
      and sid = "Some [1]" and w = "(7, 0)"
      and ?o1.0 = "Outputs6 [[[19, 21], [23, 25], [27, 29]]] [[[76, 84], [92, 100], [108, 116]]]
            [[[1, 1]]] [[0, 0, 0]] [[[27, 29], [23, 25], [19, 21]]] [[[1, 1]]]"
      and ?o2.0 = "Outputs6 [[[19, 21], [23, 25], [27, 29]]] [[[76, 84], [92, 100], [108, 116]]]
            [[[1, 1]]] [[0, 0, 0]] [[[52, 59], [38, 45], [24, 31]]] [[[1, 1]]]"]
    init_multi a wf_demo_multi d demo_multi_forward f2
  show ?thesis
    by blast
qed

section \<open>Speaker fusion\<close>

lemma compute_speaker_embedding_Some:
  assumes "hasattr (speaker_embedding s)" and "compute_speaker_embedding sid s = (Inr (), s1)"
  shows "\<exists>ids layer vecs. sid = Some ids \<and> speaker_embedding s = Present layer \<and>
           embedding_call1 layer ids = Inr vecs \<and>
           s1 = s\<lparr>speaker_embeddings := Present (Some (unsqueeze1 vecs))\<rparr>"
  using assms
  by (auto simp: compute_speaker_embedding_def raise_def return_def bind_def
        p_compute_speaker_embedding_def liftE_def getattr_def hasattr_def
      split: if_splits prod.splits sum.splits attr.splits)

lemma fuse_speaker_multi:
  "num_speakers s > 1 \<Longrightarrow> speaker_embeddings s = Present c \<Longrightarrow>
     fst (fuse_speaker enc s) = p_concat_speaker_embedding enc c"
  by (simp add: fuse_speaker_def bind_def liftE_def getattr_def)

lemma expand_dim_singleton: "expand_dim [v] n = Inr (replicate n v)"
  by (cases "n = 1") (auto simp: expand_dim_def)

lemma concat_speaker_nth:
  assumes c: "p_concat_speaker_embedding enc (Some (unsqueeze1 vecs)) = Inr fused"
    and l: "length vecs = length enc" and b: "b < length enc" and t: "t < length (enc ! b)"
  shows "fused ! b ! t = enc ! b ! t @ vecs ! b"
proof -
  from c l obtain se where
    ex: "mapE (\<lambda>r. expand_dim r (size1 enc)) (unsqueeze1 vecs) = Inr se"
    and cat: "cat_last enc se = Inr fused"
    by (auto simp: p_concat_speaker_embedding_def bindE_def expand_def expand_dim_def
          unsqueeze1_def size0_def split: sum.splits)
  from mapE_Inr[OF ex] b l
  have "expand_dim (unsqueeze1 vecs ! b) (size1 enc) = Inr (se ! b)"
    by (simp add: unsqueeze1_def)
  with b l have seb: "se ! b = replicate (size1 enc) (vecs ! b)"
    by (simp add: unsqueeze1_def expand_dim_singleton)
  from cat have z: "zipE cat_error (zipE cat_error (\<lambda>u v. Inr (u @ v))) enc se = Inr fused"
    by (simp add: cat_last_def)
  from zipE_Inr[OF z] b
  have z2: "zipE cat_error (\<lambda>u v. Inr (u @ v)) (enc ! b) (se ! b) = Inr (fused ! b)"
    by simp
  from zipE_Inr[OF z2] t
  have "length (se ! b) = length (enc ! b)" and "fused ! b ! t = enc ! b ! t @ se ! b ! t"
    by simp_all
  with seb t show ?thesis
    by simp
qed

text \<open>
  Claim C8. On a multi-speaker model, a call of \<open>forward\<close> and a call of \<open>inference\<close>
  that return have both given the decoder the result of \<open>_concat_speaker_embedding\<close> on
  the encoder output and the speaker vectors of this call's speaker ids; neither calls
  \<open>_add_speaker_embedding\<close>. With one speaker vector per batch item, the fused output at
  every batch item and time position is the encoder output there followed by the speaker
  vector of the item.
\<close>

theorem fusion_is_concatenation:
  assumes "wf s" and "num_speakers s > 1"
  shows "(fst (forward env chars lens mel sid s) = Inr out \<longrightarrow>
           (\<exists>ids layer vecs emb enc fused msk raw al st.
              sid = Some ids \<and> speaker_embedding s = Present layer \<and>
              embedding_call1 layer ids = Inr vecs \<and>
              embedding_call (embedding s) chars = Inr emb \<and>
              fst (Encoder_forward env (transpose12 emb) lens (objects s ! encoder s)) = Inr enc \<and>
              p_concat_speaker_embedding enc (Some (unsqueeze1 vecs)) = Inr fused \<and>
              sequence_mask env lens = Inr msk \<and>
              fst (Decoder_forward env fused mel msk (objects s ! decoder s)) = Inr (raw, al, st))) \<and>
         (fst (inference env chars sid s) = Inr out' \<longrightarrow>
           (\<exists>ids layer vecs emb enc fused raw al st.
              sid = Some ids \<and> speaker_embedding s = Present layer \<and>
              embedding_call1 layer ids = Inr vecs \<and>
              embedding_call (embedding s) chars = Inr emb \<and>
              fst (Encoder_inference env (transpose12 emb) (objects s ! encoder s)) = Inr enc \<and>
              p_concat_speaker_embedding enc (Some (unsqueeze1 vecs)) = Inr fused \<and>
              fst (Decoder_inference env fused (objects s ! decoder s)) = Inr (raw, al, st))) \<and>
         (p_concat_speaker_embedding enc0 (Some (unsqueeze1 vecs0)) = Inr fused0 \<longrightarrow>
            length vecs0 = length enc0 \<longrightarrow> b < length enc0 \<longrightarrow> t < length (enc0 ! b) \<longrightarrow>
            fused0 ! b ! t = enc0 ! b ! t @ vecs0 ! b)"
proof (intro conjI impI)
  from assms have h: "hasattr (speaker_embedding (s\<lparr>speaker_embeddings := Present None\<rparr>))"
    by (simp add: wf_def)
  {
    assume run: "fst (forward env chars lens mel sid s) = Inr out"
    from forward_success[OF assms(1) run] obtain msk emb s1 enc fused raw al st where
      m: "sequence_mask env lens = Inr msk"
      and e: "embedding_call (embedding s) chars = Inr emb"
      and c: "compute_speaker_embedding sid (s\<lparr>speaker_embeddings := Present None\<rparr>) = (Inr (), s1)"
      and n: "fst (Encoder_forward env (transpose12 emb) lens (objects s ! encoder s)) = Inr enc"
      and f: "fst (fuse_speaker enc s1) = Inr fused"
      and d: "fst (Decoder_forward env fused mel msk (objects s ! decoder s)) = Inr (raw, al, st)"
      by blast
    from compute_speaker_embedding_Some[OF h c] obtain ids layer vecs where
      i: "sid = Some ids" "speaker_embedding s = Present layer"
        "embedding_call1 layer ids = Inr vecs"
      and s1: "s1 = s\<lparr>speaker_embeddings := Present (Some (unsqueeze1 vecs))\<rparr>"
      by auto
    from f s1 assms(2) have "p_concat_speaker_embedding enc (Some (unsqueeze1 vecs)) = Inr fused"
      by (simp add: fuse_speaker_multi)
    with m e n d i
    show "\<exists>ids layer vecs emb enc fused msk raw al st.
              sid = Some ids \<and> speaker_embedding s = Present layer \<and>
              embedding_call1 layer ids = Inr vecs \<and>
              embedding_call (embedding s) chars = Inr emb \<and>
              fst (Encoder_forward env (transpose12 emb) lens (objects s ! encoder s)) = Inr enc \<and>
              p_concat_speaker_embedding enc (Some (unsqueeze1 vecs)) = Inr fused \<and>
              sequence_mask env lens = Inr msk \<and>
              fst (Decoder_forward env fused mel msk (objects s ! decoder s)) = Inr (raw, al, st)"
      by blast
  }
  {
    assume run: "fst (inference env chars sid s) = Inr out'"
    from inference_success[OF assms(1) run] obtain emb s1 enc fused raw al st where
      e: "embedding_call (embedding s) chars = Inr emb"
      and c: "compute_speaker_embedding sid (s\<lparr>speaker_embeddings := Present None\<rparr>) = (Inr (), s1)"
      and n: "fst (Encoder_inference env (transpose12 emb) (objects s ! encoder s)) = Inr enc"
      and f: "fst (fuse_speaker enc s1) = Inr fused"
      and d: "fst (Decoder_inference env fused (objects s ! decoder s)) = Inr (raw, al, st)"
      by blast
    from compute_speaker_embedding_Some[OF h c] obtain ids layer vecs where
      i: "sid = Some ids" "speaker_embedding s = Present layer"
        "embedding_call1 layer ids = Inr vecs"
      and s1: "s1 = s\<lparr>speaker_embeddings := Present (Some (unsqueeze1 vecs))\<rparr>"
      by auto
    from f s1 assms(2) have "p_concat_speaker_embedding enc (Some (unsqueeze1 vecs)) = Inr fused"
      by (simp add: fuse_speaker_multi)
    with e n d i
    show "\<exists>ids layer vecs emb enc fused raw al st.
              sid = Some ids \<and> speaker_embedding s = Present layer \<and>
              embedding_call1 layer ids = Inr vecs \<and>
              embedding_call (embedding s) chars = Inr emb \<and>
              fst (Encoder_inference env (transpose12 emb) (objects s ! encoder s)) = Inr enc \<and>
              p_concat_speaker_embedding enc (Some (unsqueeze1 vecs)) = Inr fused \<and>
              fst (Decoder_inference env fused (objects s ! decoder s)) = Inr (raw, al, st)"
      by blast
  }
  {
    assume "p_concat_speaker_embedding enc0 (Some (unsqueeze1 vecs0)) = Inr fused0"
      "length vecs0 = length enc0" "b < length enc0" "t < length (enc0 ! b)"
    then show "fused0 ! b ! t = enc0 ! b ! t @ vecs0 ! b"
      by (rule concat_speaker_nth)
  }
qed

theorem fusion_is_concatenation_witness:
  "wf demo_multi \<and> num_speakers demo_multi > 1 \<and>
   fst (forward demo_env [[1, 2]] [2] (Some [[[1, 2], [3, 4], [5, 6]]]) (Some [1]) demo_multi) =
     Inr (Outputs6 [[[19, 21], [23, 25], [27, 29]]] [[[76, 84], [92, 100], [108, 116]]]
            [[[1, 1]]] [[0, 0, 0]] [[[27, 29], [23, 25], [19, 21]]] [[[1, 1]]]) \<and>
   fst (inference demo_env [[1, 2]] (Some [0]) demo_multi) =
     Inr (Outputs4 [[[19, 25], [21, 25]]] [[[76, 100], [84, 100]]] [] [[0, 0]]) \<and>
   (\<exists>ids layer vecs emb enc fused msk raw al st.
      Some [1] = Some ids \<and> speaker_embedding demo_multi = Present layer \<and>
      embedding_call1 layer ids = Inr vecs \<and>
      embedding_call (embedding demo_multi) [[1, 2]] = Inr emb \<and>
      fst (Encoder_forward demo_env (transpose12 emb) [2]
             (objects demo_multi ! encoder demo_multi)) = Inr enc \<and>
      p_concat_speaker_embedding enc (Some (unsqueeze1 vecs)) = Inr fused \<and>
      sequence_mask (demo_env :: (int, int \<times> nat) env) [2] = Inr msk \<and>
      fst (Decoder_forward demo_env fused (Some [[[1, 2], [3, 4], [5, 6]]]) msk
             (objects demo_multi ! decoder demo_multi)) = Inr (raw, al, st)) \<and>
   (\<exists>ids layer vecs emb enc fused raw al st.
      Some [0] = Some ids \<and> speaker_embedding demo_multi = Present layer \<and>
      embedding_call1 layer ids = Inr vecs \<and>
      embedding_call (embedding demo_multi) [[1, 2]] = Inr emb \<and>
      fst (Encoder_inference demo_env (transpose12 emb)
             (objects demo_multi ! encoder demo_multi)) = Inr enc \<and>
      p_concat_speaker_embedding enc (Some (unsqueeze1 vecs)) = Inr fused \<and>
      fst (Decoder_inference demo_env fused (objects demo_multi ! decoder demo_multi)) =
        Inr (raw, al, st)) \<and>
   p_concat_speaker_embedding [[[2], [3]]] (Some (unsqueeze1 [[6 :: int]])) =
     Inr [[[2, 6], [3, 6]]] \<and>
   length [[6 :: int]] = length [[[2 :: int], [3]]] \<and>
   (0 :: nat) < length [[[2 :: int], [3]]] \<and> (1 :: nat) < length ([[[2 :: int], [3]]] ! 0) \<and>
   [[[2, 6], [3, 6]]] ! 0 ! 1 = [[[2], [3]]] ! 0 ! 1 @ [[6 :: int]] ! 0"
proof -
  have n: "num_speakers demo_multi > 1"
    by code_simp
  have c: "p_concat_speaker_embedding [[[2], [3]]] (Some (unsqueeze1 [[6 :: int]])) =
      Inr [[[2, 6], [3, 6]]]"
    by code_simp
  have l1: "length [[6 :: int]] = length [[[2 :: int], [3]]]"
    and l2: "(0 :: nat) < length [[[2 :: int], [3]]]"
    and l3: "(1 :: nat) < length ([[[2 :: int], [3]]] ! 0)"
    by simp_all
  note T = fusion_is_concatenation[OF wf_demo_multi n, where env = demo_env
      and chars = "[[1, 2]]" and lens = "[2]" and mel = "Some [[[1, 2], [3, 4], [5, 6]]]"]
  note p1 = T[where sid = "Some [1]", THEN conjunct1, THEN mp, OF demo_multi_forward]
  note p2 = T[where sid = "Some [0]", THEN conjunct2, THEN conjunct1, THEN mp,
      OF demo_multi_inference]
  note p3 = T[THEN conjunct2, THEN conjunct2, THEN mp, THEN mp, THEN mp, THEN mp,
      OF c l1 l2 l3]
  show ?thesis
    by (intro conjI wf_demo_multi n demo_multi_forward demo_multi_inference p1 p2 c l1 l2 l3 p3)
qed

section \<open>The cached speaker vector\<close>

lemma forward_resets:
  "forward env chars lens mel sid (s\<lparr>speaker_embeddings := c\<rparr>) = forward env chars lens mel sid s"
  by (simp add: forward_def bind_def p_init_states_def)

lemma inference_resets:
  "embedding_call (embedding s) chars = Inr emb \<Longrightarrow>
     inference env chars sid (s\<lparr>speaker_embeddings := c\<rparr>) = inference env chars sid s"
  by (simp add: inference_def bind_def p_init_states_def liftE_def)

lemma inference_result_resets:
  "fst (inference env chars sid (s\<lparr>speaker_embeddings := c\<rparr>)) = fst (inference env chars sid s)"
  by (cases "embedding_call (embedding s) chars")
     (simp_all add: inference_def bind_def p_init_states_def liftE_def)

lemma compute_speaker_embedding_cache:
  "hasattr (speaker_embedding s) \<Longrightarrow>
     compute_speaker_embedding sid (s\<lparr>speaker_embeddings := c\<rparr>) =
       (case compute_speaker_embedding sid s of
          (Inl e, _) \<Rightarrow> (Inl e, s\<lparr>speaker_embeddings := c\<rparr>)
        | (Inr u, s') \<Rightarrow> (Inr u, s'))"
  by (auto simp: compute_speaker_embedding_def raise_def return_def bind_def
        p_compute_speaker_embedding_def liftE_def
      split: if_splits prod.splits sum.splits)

lemma inference_truncated_cache:
  assumes "wf s"
  shows "fst (inference_truncated env chars sid (s\<lparr>speaker_embeddings := c\<rparr>)) =
         fst (inference_truncated env chars sid s)"
proof (cases "hasattr (speaker_embedding s)")
  case True
  then show ?thesis
    by (auto simp: inference_truncated_def bind_def compute_speaker_embedding_cache
          split: prod.splits sum.splits)
next
  case False
  with assms have n: "\<not> num_speakers s > 1"
    by (simp add: wf_def)
  from False have "\<not> hasattr (speaker_embedding (s\<lparr>speaker_embeddings := c\<rparr>))"
    by simp
  with False n show ?thesis
    by (auto simp: inference_truncated_def bind_def compute_speaker_embedding_single
          liftE_def Let_def call_module_def fuse_speaker_def return_def name_lookup_def
          split: prod.splits sum.splits)
qed

text \<open>
  Claim C9, as amended. \<open>forward\<close> resets the cached speaker vector as its first step,
  and \<open>inference\<close> resets it after the token embedding lookup and before the speaker step:
  what either returns, and the object \<open>forward\<close> leaves, do not depend on the value
  cached before the call. \<open>inference_truncated\<close> does not reset the cache; on a
  well-formed model what it raises does not depend on the value cached before the call
  either.
\<close>

theorem stale_cache_not_observed:
  "forward env chars lens mel sid (s\<lparr>speaker_embeddings := c\<rparr>) =
     forward env chars lens mel sid s \<and>
   fst (inference env chars sid (s\<lparr>speaker_embeddings := c\<rparr>)) =
     fst (inference env chars sid s) \<and>
   (embedding_call (embedding s) chars = Inr emb \<longrightarrow>
      inference env chars sid (s\<lparr>speaker_embeddings := c\<rparr>) = inference env chars sid s) \<and>
   (wf s \<longrightarrow>
      fst (inference_truncated env chars sid (s\<lparr>speaker_embeddings := c\<rparr>)) =
      fst (inference_truncated env chars sid s))"
  by (simp add: forward_resets inference_result_resets inference_resets
        inference_truncated_cache)

theorem stale_cache_not_observed_witness:
  "embedding_call (embedding demo_multi) [[1, 2]] = Inr [[replicate 512 2, replicate 512 3]] \<and>
   wf demo_multi \<and>
   forward demo_env [[1, 2]] [2] (Some [[[1, 2], [3, 4], [5, 6]]]) (Some [1])
       (demo_multi\<lparr>speaker_embeddings := Present (Some [[[7]]])\<rparr>) =
     forward demo_env [[1, 2]] [2] (Some [[[1, 2], [3, 4], [5, 6]]]) (Some [1]) demo_multi \<and>
   inference demo_env [[1, 2]] (Some [1])
       (demo_multi\<lparr>speaker_embeddings := Present (Some [[[7]]])\<rparr>) =
     inference demo_env [[1, 2]] (Some [1]) demo_multi \<and>
   fst (inference_truncated demo_env [[1, 2]] (Some [1])
          (demo_multi\<lparr>speaker_embeddings := Present (Some [[[7]]])\<rparr>)) =
     fst (inference_truncated demo_env [[1, 2]] (Some [1]) demo_multi)"
  using stale_cache_not_observed[where env = demo_env and chars = "[[1, 2]]" and lens = "[2]"
      and mel = "Some [[[1, 2], [3, 4], [5, 6]]]" and sid = "Some [1]" and s = demo_multi
      and c = "Present (Some [[[7]]])" and emb = "[[replicate 512 2, replicate 512 3]]"]
    demo_multi_embedding wf_demo_multi
  by blast

text \<open>The claim as stated fails for \<open>inference_truncated\<close>: after \<open>inference\<close> with speaker
  id 1 has cached a vector, \<open>inference_truncated\<close> without speaker ids raises and the
  cached vector is still there.\<close>

theorem stale_cache_counterexample:
  "init demo_env demo_samples multi_args = Inr demo_multi \<and>
   speaker_embeddings (snd (inference demo_env [[1, 2]] (Some [1]) demo_multi)) =
     Present (Some [[[6]]]) \<and>
   speaker_embeddings
     (snd (inference_truncated demo_env [[1, 2]] None
             (snd (inference demo_env [[1, 2]] (Some [1]) demo_multi)))) =
     Present (Some [[[6]]])"
  by code_simp

end
